theory Spec2Isabelle
  imports Complex_Main "HOL-Library.Word"
begin

unbundle bit_operations_syntax

section \<open>Python values shared by the modelled functions\<close>

text \<open>
  Exceptions of the Python source are values: a function that can raise returns
  \<open>py_error + 'a\<close>, with \<open>Inl\<close> the exception.
\<close>

datatype py_error = ZeroDivisionError | IndexError | NameError | StructError | ValueError

text \<open>
  \<open>str.strip()\<close> removes the white space of Python at both ends. A \<open>char\<close> stands
  for a code point below 256 (the spreadsheet cells are rendered by \<open>str\<close>): there
  \<open>str.isspace\<close> holds of TAB .. CR, FS .. US, the blank, NEL (U+0085) and the no-break
  space (U+00A0). The header bytes are decoded as ASCII with \<open>errors='ignore'\<close>, so the
  last two never occur in a header string.
\<close>

definition is_space :: "char \<Rightarrow> bool" where
  "is_space c = (c \<in> set [CHR 0x09, CHR 0x0A, CHR 0x0B, CHR 0x0C, CHR 0x0D,
                          CHR 0x1C, CHR 0x1D, CHR 0x1E, CHR 0x1F, CHR 0x20,
                          CHR 0x85, CHR 0xA0])"

definition strip :: "string \<Rightarrow> string" where
  "strip s = rev (dropWhile is_space (rev (dropWhile is_space s)))"

text \<open>\<open>s.split(c)\<close> for a one-character separator: never empty, \<open>''.split(c) == ['']\<close>.\<close>

fun split_on :: "char \<Rightarrow> string \<Rightarrow> string list" where
  "split_on c [] = [[]]"
| "split_on c (x # xs) =
     (if x = c then [] # split_on c xs
      else (case split_on c xs of
              [] \<Rightarrow> [[x]]
            | p # ps \<Rightarrow> (x # p) # ps))"

section \<open>External event rows\<close>

text \<open>
  An event is the dictionary built by \<open>load_excel_events\<close>; the key \<open>relative_time\<close>
  is present only when a reference time was given.
\<close>

record event =
  time :: string
  time_seconds :: real
  relative_time :: "real option"
  event_type :: string
  row_index :: nat

text \<open>
  \<open>parse_time_to_seconds\<close>. Python's \<open>float\<close> on a string is a builtin, not code of
  the repository: it is the parameter \<open>pyfloat\<close>, \<open>None\<close> where \<open>float\<close> raises
  \<open>ValueError\<close>. Times are real numbers here: the rounding of the sums and differences
  of event times is left out (rounding is modelled in the duration reconciliation, where
  the outcome depends on it), and NaN and the infinities are outside the model. The bare
  \<open>except\<close> turns every failure into \<open>0.0\<close>.
\<close>

definition parse_time_to_seconds :: "(string \<Rightarrow> real option) \<Rightarrow> string \<Rightarrow> real" where
  "parse_time_to_seconds pyfloat time_str =
     (let parts = split_on CHR '':'' time_str in
      if length parts \<ge> 3 then
        (case pyfloat (parts ! 0) of None \<Rightarrow> 0 | Some hours \<Rightarrow>
         case pyfloat (parts ! 1) of None \<Rightarrow> 0 | Some minutes \<Rightarrow>
         case pyfloat (parts ! 2) of None \<Rightarrow> 0 | Some seconds \<Rightarrow>
           hours * 3600 + minutes * 60 + seconds)
      else 0)"

text \<open>\<open>parse_edf_time_to_seconds\<close>: the same on the header's \<open>HH.MM.SS\<close>, with an \<open>HH.MM\<close> branch.\<close>

definition parse_edf_time_to_seconds :: "(string \<Rightarrow> real option) \<Rightarrow> string \<Rightarrow> real" where
  "parse_edf_time_to_seconds pyfloat edf_time_str =
     (let parts = split_on CHR ''.'' edf_time_str in
      if length parts \<ge> 3 then
        (case pyfloat (parts ! 0) of None \<Rightarrow> 0 | Some hours \<Rightarrow>
         case pyfloat (parts ! 1) of None \<Rightarrow> 0 | Some minutes \<Rightarrow>
         case pyfloat (parts ! 2) of None \<Rightarrow> 0 | Some seconds \<Rightarrow>
           hours * 3600 + minutes * 60 + seconds)
      else if length parts = 2 then
        (case pyfloat (parts ! 0) of None \<Rightarrow> 0 | Some hours \<Rightarrow>
         case pyfloat (parts ! 1) of None \<Rightarrow> 0 | Some minutes \<Rightarrow>
           hours * 3600 + minutes * 60 + 0)
      else 0)"

text \<open>
  The row loop of \<open>load_excel_events\<close>. The data frame \<open>df\<close> (after the removal of a
  leading empty row) is a list of rows, each the list of its cells as \<open>str\<close> renders
  them. \<open>df.iloc[i, 2]\<close> and \<open>df.iloc[i, 3]\<close> raise on a row with fewer than four
  cells. \<open>i\<close> is the index of the row in the frame.
\<close>

definition valid_event :: "string \<Rightarrow> bool" where
  "valid_event ev_type =
     (ev_type \<notin> set [''nan'', ''None'', ''''] \<and> strip ev_type \<noteq> '''')"

definition make_event :: "(string \<Rightarrow> real option) \<Rightarrow> real option \<Rightarrow> nat \<Rightarrow> string \<Rightarrow> string \<Rightarrow> event" where
  "make_event pyfloat reference_time i time_str ev_type =
     (let secs = parse_time_to_seconds pyfloat time_str in
      \<lparr>time = time_str, time_seconds = secs,
       relative_time = (case reference_time of None \<Rightarrow> None | Some r \<Rightarrow> Some (secs - r)),
       event_type = ev_type, row_index = i\<rparr>)"

fun load_rows :: "(string \<Rightarrow> real option) \<Rightarrow> real option \<Rightarrow> nat \<Rightarrow> string list list
                  \<Rightarrow> py_error + event list" where
  "load_rows pyfloat reference_time i [] = Inr []"
| "load_rows pyfloat reference_time i (row # rows) =
     (if length row < 4 then Inl IndexError
      else
        let time_str = strip (row ! 2);
            ev_type = strip (row ! 3);
            has_time = (CHR '':'' \<in> set time_str)
        in case load_rows pyfloat reference_time (Suc i) rows of
             Inl e \<Rightarrow> Inl e
           | Inr events \<Rightarrow>
               Inr (if has_time \<and> valid_event ev_type
                    then make_event pyfloat reference_time i time_str ev_type # events
                    else events))"

text \<open>The outer \<open>except\<close> of \<open>load_excel_events\<close> returns the empty list.\<close>

definition load_excel_events :: "(string \<Rightarrow> real option) \<Rightarrow> string list list \<Rightarrow> real option
                                 \<Rightarrow> event list" where
  "load_excel_events pyfloat df reference_time =
     (case load_rows pyfloat reference_time 0 df of Inl e \<Rightarrow> [] | Inr events \<Rightarrow> events)"

section \<open>Event alignment: the classification loop of \<open>convert_edf_to_edfplus\<close>\<close>

datatype status = INCLUDED | EXCLUDED_OUT_OF_RANGE | EXCLUDED_ZERO_PADDING

text \<open>
  The variables the loop over \<open>all_events\<close> updates. \<open>ref_time\<close> is \<open>None\<close> while the
  Python variable is unbound.
\<close>

record loop_state =
  onsets :: "real list"
  durations :: "real list"
  descriptions :: "string list"
  event_status :: "status list"
  ref_time :: "real option"

definition tolerance :: real where
  "tolerance = 0.1"

text \<open>
  The first step of the loop body: the relative time of the event, and the binding of
  \<open>ref_time\<close> after it. Reading the unbound \<open>ref_time\<close> raises \<open>NameError\<close>.
\<close>

definition event_relative_time :: "loop_state \<Rightarrow> event \<Rightarrow> py_error + (real \<times> real option)" where
  "event_relative_time st ev =
     (case relative_time ev of
        Some r \<Rightarrow> Inr (r, ref_time st)
      | None \<Rightarrow>
          if onsets st = [] then Inr (0, Some (time_seconds ev))
          else (case ref_time st of
                  None \<Rightarrow> Inl NameError
                | Some t \<Rightarrow> Inr (time_seconds ev - t, Some t)))"

definition process_event :: "real option \<Rightarrow> real \<Rightarrow> loop_state \<Rightarrow> event \<Rightarrow> py_error + loop_state" where
  "process_event zero_padding_start actual_duration st ev =
     (case event_relative_time st ev of
        Inl e \<Rightarrow> Inl e
      | Inr (rel, rt) \<Rightarrow>
          let st1 = st\<lparr>ref_time := rt\<rparr> in
          if (case zero_padding_start of None \<Rightarrow> False | Some z \<Rightarrow> rel \<ge> z) then
            Inr (st1\<lparr>event_status := event_status st1 @ [EXCLUDED_ZERO_PADDING]\<rparr>)
          else if rel \<ge> 0 \<and> rel \<le> actual_duration + tolerance then
            let rel' = (if rel > actual_duration then actual_duration else rel) in
            Inr (st1\<lparr>onsets := onsets st1 @ [rel'],
                     durations := durations st1 @ [0],
                     descriptions := descriptions st1 @ [event_type ev],
                     event_status := event_status st1 @ [INCLUDED]\<rparr>)
          else
            Inr (st1\<lparr>event_status := event_status st1 @ [EXCLUDED_OUT_OF_RANGE]\<rparr>))"

fun process_events :: "real option \<Rightarrow> real \<Rightarrow> loop_state \<Rightarrow> event list \<Rightarrow> py_error + loop_state" where
  "process_events zero_padding_start actual_duration st [] = Inr st"
| "process_events zero_padding_start actual_duration st (ev # evs) =
     (case process_event zero_padding_start actual_duration st ev of
        Inl e \<Rightarrow> Inl e
      | Inr st' \<Rightarrow> process_events zero_padding_start actual_duration st' evs)"

definition initial_loop_state :: loop_state where
  "initial_loop_state =
     \<lparr>onsets = [], durations = [], descriptions = [], event_status = [], ref_time = None\<rparr>"

text \<open>
  The trichotomy as the claim words it, on a relative offset: the status, and the onset of
  the annotation when one is emitted. \<open>zero_padding_start\<close> is bound exactly when the
  reconciliation padded.
\<close>

definition classify :: "real option \<Rightarrow> real \<Rightarrow> real \<Rightarrow> status" where
  "classify zero_padding_start final_duration rel =
     (if (case zero_padding_start of None \<Rightarrow> False | Some z \<Rightarrow> rel \<ge> z)
      then EXCLUDED_ZERO_PADDING
      else if 0 \<le> rel \<and> rel \<le> final_duration + 0.1 then INCLUDED
      else EXCLUDED_OUT_OF_RANGE)"

definition clamped_onset :: "real \<Rightarrow> real \<Rightarrow> real" where
  "clamped_onset final_duration rel = min rel final_duration"

section \<open>Gathering the events of all spreadsheet files, and the status write-back\<close>

text \<open>
  \<open>events.index(event)\<close>: the position of the first element equal to \<open>event\<close>. The
  source calls it only on elements of \<open>events\<close>, so it never raises there.
\<close>

definition index_of :: "'a list \<Rightarrow> 'a \<Rightarrow> nat" where
  "index_of xs x = length (takeWhile (\<lambda>y. y \<noteq> x) xs)"

text \<open>
  The inner loop that fills \<open>excel_event_mapping\<close>, run after \<open>all_events.extend(events)\<close>:
  \<open>n_all\<close> is \<open>len(all_events)\<close> at that moment.
\<close>

definition map_events :: "nat \<Rightarrow> event list \<Rightarrow> string \<Rightarrow> (nat \<rightharpoonup> string) \<Rightarrow> (nat \<rightharpoonup> string)" where
  "map_events n_all events excel_file excel_event_mapping =
     fold (\<lambda>ev m. m(n_all - length events + index_of events ev \<mapsto> excel_file))
          events excel_event_mapping"

text \<open>A spreadsheet file is its path and its data frame.\<close>

fun collect_events :: "(string \<Rightarrow> real option) \<Rightarrow> real option \<Rightarrow> (string \<times> string list list) list
                       \<Rightarrow> event list \<Rightarrow> (nat \<rightharpoonup> string) \<Rightarrow> event list \<times> (nat \<rightharpoonup> string)" where
  "collect_events pyfloat reference_time [] all_events excel_event_mapping =
     (all_events, excel_event_mapping)"
| "collect_events pyfloat reference_time ((excel_file, df) # files) all_events excel_event_mapping =
     (let events = load_excel_events pyfloat df reference_time;
          all_events' = all_events @ events
      in collect_events pyfloat reference_time files all_events'
           (map_events (length all_events') events excel_file excel_event_mapping))"

text \<open>The key of \<open>all_events.sort\<close>; the sort of Python is stable, as \<open>sort_key\<close> is.\<close>

definition event_key :: "event \<Rightarrow> real" where
  "event_key ev = (case relative_time ev of Some r \<Rightarrow> r | None \<Rightarrow> time_seconds ev)"

text \<open>
  \<open>excel_status_updates\<close> is a dictionary from file to the list of its updates
  \<open>(row_index, status)\<close>; the association list keeps the insertion order of the keys.
\<close>

type_synonym status_update = "nat \<times> status"

fun add_update :: "string \<Rightarrow> status_update \<Rightarrow> (string \<times> status_update list) list
                   \<Rightarrow> (string \<times> status_update list) list" where
  "add_update f u [] = [(f, [u])]"
| "add_update f u ((g, us) # rest) =
     (if g = f then (g, us @ [u]) # rest else (g, us) # add_update f u rest)"

fun status_updates_loop :: "event list \<Rightarrow> (nat \<rightharpoonup> string) \<Rightarrow> nat \<Rightarrow> status list
                            \<Rightarrow> (string \<times> status_update list) list
                            \<Rightarrow> (string \<times> status_update list) list" where
  "status_updates_loop all_events excel_event_mapping i [] excel_status_updates =
     excel_status_updates"
| "status_updates_loop all_events excel_event_mapping i (st # rest) excel_status_updates =
     status_updates_loop all_events excel_event_mapping (Suc i) rest
       (if i < length all_events then
          (case excel_event_mapping i of
             None \<Rightarrow> excel_status_updates
           | Some excel_file \<Rightarrow>
               if excel_file \<noteq> [] then
                 add_update excel_file (row_index (all_events ! i), st) excel_status_updates
               else excel_status_updates)
        else excel_status_updates)"

text \<open>
  \<open>update_excel_event_status\<close> on column F of one worksheet, a map from the 1-based row
  of the sheet to the status written there.
\<close>

definition update_excel_event_status :: "(nat \<rightharpoonup> status) \<Rightarrow> status_update list \<Rightarrow> (nat \<rightharpoonup> status)" where
  "update_excel_event_status ws event_status_info =
     fold (\<lambda>(row_idx, st) w. w(row_idx + 1 \<mapsto> st)) event_status_info ws"

definition write_back :: "(string \<times> status_update list) list \<Rightarrow> (string \<Rightarrow> (nat \<rightharpoonup> status))
                          \<Rightarrow> (string \<Rightarrow> (nat \<rightharpoonup> status))" where
  "write_back excel_status_updates sheets =
     fold (\<lambda>(excel_file, us) sh. sh(excel_file := update_excel_event_status (sh excel_file) us))
          excel_status_updates sheets"

text \<open>
  Steps 5 to 6.5 of \<open>convert_edf_to_edfplus\<close> once the events are known not to be empty:
  sort, classify, group the statuses by file.
\<close>

definition align_events :: "real option \<Rightarrow> real \<Rightarrow> event list \<Rightarrow> (nat \<rightharpoonup> string)
                            \<Rightarrow> py_error + (loop_state \<times> (string \<times> status_update list) list)" where
  "align_events zps actual_duration all_events excel_event_mapping =
     (let sorted_events = sort_key event_key all_events in
      case process_events zps actual_duration initial_loop_state sorted_events of
        Inl e \<Rightarrow> Inl e
      | Inr st \<Rightarrow>
          Inr (st, status_updates_loop sorted_events excel_event_mapping 0 (event_status st) []))"

section \<open>Duration reconciliation\<close>

text \<open>
  The recording held by the time-series library: sampling rate and a matrix of channels by
  samples, with at least one channel.
\<close>

record raw =
  sfreq :: real
  data :: "real list list"

text \<open>\<open>data.shape[1]\<close>, the number of samples of each channel.\<close>

definition shape1 :: "real list list \<Rightarrow> nat" where
  "shape1 d = (case d of [] \<Rightarrow> 0 | row # _ \<Rightarrow> length row)"

text \<open>
  \<open>raw.times[-1]\<close>. \<open>raw.times\<close> has one entry for each sample, so the read raises
  \<open>IndexError\<close> on a recording without samples; on any other recording its value belongs
  to the library and is the parameter \<open>times_last\<close> of what follows.
\<close>

definition raw_times_last :: "(raw \<Rightarrow> real) \<Rightarrow> raw \<Rightarrow> py_error + real" where
  "raw_times_last times_last r =
     (if shape1 (data r) = 0 then Inl IndexError else Inr (times_last r))"

datatype action = NoAction | Pad | Truncate

text \<open>
  What the reconciliation block leaves behind: the branch taken, \<open>target_samples\<close> when it
  was computed, the recording and \<open>zero_padding_start\<close>.
\<close>

record reconciliation =
  action :: action
  target_samples :: "int option"
  repaired :: raw
  zero_padding_start :: "real option"

text \<open>\<open>int(x)\<close> on a float truncates towards zero.\<close>

definition py_int_of_real :: "real \<Rightarrow> int" where
  "py_int_of_real x = (if x \<ge> 0 then \<lfloor>x\<rfloor> else \<lceil>x\<rceil>)"

text \<open>\<open>row[:k]\<close>: a negative \<open>k\<close> counts from the end.\<close>

definition py_take :: "int \<Rightarrow> 'a list \<Rightarrow> 'a list" where
  "py_take k xs = (if k \<ge> 0 then take (nat k) xs else take (length xs - nat (- k)) xs)"

text \<open>
  The block between the first read of \<open>raw.times[-1]\<close> and the read of
  \<open>actual_duration\<close>. The durations and the sampling rate are doubles, and each
  operation on them rounds its exact result to a double: that rounding is the parameter
  \<open>fl\<close>, so \<open>mne_duration - header_duration\<close> is \<open>fl (mne_duration - header_duration)\<close>,
  \<open>header_duration * raw.info['sfreq']\<close> is \<open>fl (header_duration * sfreq r)\<close> and the
  literal \<open>0.01\<close> is \<open>fl (1 / 100)\<close>; \<open>abs\<close> and the comparisons are exact on doubles.
  The block is entered after \<open>raw.times[-1]\<close> has been read, and its two log lines read
  \<open>raw.times[-1]\<close> of the repaired recording: these reads, which raise on a recording
  without samples, are the \<open>raw_times_last\<close> before and after it in
  \<open>convert_edf_to_edfplus\<close> below.
\<close>

definition reconcile :: "(real \<Rightarrow> real) \<Rightarrow> (raw \<Rightarrow> real) \<Rightarrow> real \<Rightarrow> raw \<Rightarrow> reconciliation" where
  "reconcile fl times_last header_duration r =
     (let mne_duration = times_last r;
          duration_diff = \<bar>fl (mne_duration - header_duration)\<bar>;
          original_duration = mne_duration
      in if duration_diff > fl (1 / 100) then
           let target = py_int_of_real (fl (header_duration * sfreq r));
               current_samples = int (shape1 (data r))
           in if target > current_samples then
                let padding_samples = target - current_samples in
                \<lparr>action = Pad, target_samples = Some target,
                 repaired = r\<lparr>data := map (\<lambda>row. row @ replicate (nat padding_samples) 0) (data r)\<rparr>,
                 zero_padding_start = Some original_duration\<rparr>
              else if target < current_samples then
                \<lparr>action = Truncate, target_samples = Some target,
                 repaired = r\<lparr>data := map (py_take target) (data r)\<rparr>,
                 zero_padding_start = None\<rparr>
              else
                \<lparr>action = NoAction, target_samples = Some target, repaired = r,
                 zero_padding_start = None\<rparr>
         else
           \<lparr>action = NoAction, target_samples = None, repaired = r, zero_padding_start = None\<rparr>)"

section \<open>Filename derivation\<close>

definition is_digit :: "char \<Rightarrow> bool" where
  "is_digit c = (48 \<le> (of_char c :: nat) \<and> (of_char c :: nat) \<le> 57)"

definition digit_val :: "char \<Rightarrow> nat" where
  "digit_val c = of_char c - 48"

definition digit_char :: "nat \<Rightarrow> char" where
  "digit_char d = char_of (48 + d)"

text \<open>
  \<open>int(s)\<close> on an ASCII string: white space stripped, an optional sign, then decimal
  digits, single underscores allowed between digits. \<open>None\<close> is \<open>ValueError\<close>.
\<close>

fun py_digits :: "nat \<Rightarrow> string \<Rightarrow> nat option" where
  "py_digits acc [] = Some acc"
| "py_digits acc (c # cs) =
     (if is_digit c then py_digits (10 * acc + digit_val c) cs
      else if c = CHR ''_'' then
        (case cs of
           [] \<Rightarrow> None
         | d # ds \<Rightarrow> if is_digit d then py_digits (10 * acc + digit_val d) ds else None)
      else None)"

definition py_nat :: "string \<Rightarrow> nat option" where
  "py_nat s = (case s of [] \<Rightarrow> None
               | c # cs \<Rightarrow> if is_digit c then py_digits (digit_val c) cs else None)"

definition py_int :: "string \<Rightarrow> int option" where
  "py_int s =
     (case strip s of
        [] \<Rightarrow> None
      | c # cs \<Rightarrow>
          if c = CHR ''-'' then map_option (\<lambda>n. - int n) (py_nat cs)
          else if c = CHR ''+'' then map_option int (py_nat cs)
          else map_option int (py_nat (c # cs)))"

text \<open>The decimal digits of a natural number, and the format \<open>{n:0wd}\<close>.\<close>

fun dec :: "nat \<Rightarrow> string" where
  "dec n = (if n < 10 then [digit_char n] else dec (n div 10) @ [digit_char (n mod 10)])"

declare dec.simps [simp del]

definition format_d :: "nat \<Rightarrow> int \<Rightarrow> string" where
  "format_d width n =
     (let body = dec (nat \<bar>n\<bar>);
          sign = (if n < 0 then [CHR ''-''] else [])
      in sign @ replicate (width - length sign - length body) CHR ''0'' @ body)"

definition convert_edf_date_time :: "string \<Rightarrow> string \<Rightarrow> string option" where
  "convert_edf_date_time date_str time_str =
     (case split_on CHR ''.'' date_str of
        [day, month, year] \<Rightarrow>
          (case (py_int year, py_int month, py_int day) of
             (Some y, Some m, Some d) \<Rightarrow>
               (let full_year = (if y < 50 then 2000 + y else 1900 + y);
                    date_formatted = format_d 4 full_year @ format_d 2 m @ format_d 2 d
                in case split_on CHR ''.'' time_str of
                     [hour, minute, second] \<Rightarrow>
                       (case (py_int hour, py_int minute) of
                          (Some h, Some mi) \<Rightarrow>
                            Some (date_formatted @ [CHR ''_''] @ format_d 2 h @ format_d 2 mi)
                        | _ \<Rightarrow> None)
                   | _ \<Rightarrow> None)
           | _ \<Rightarrow> None)
      | _ \<Rightarrow> None)"

text \<open>The dictionary of \<open>extract_edf_metadata\<close>, sliced from the decoded 256-byte header.\<close>

record edf_metadata =
  version :: string
  patient_id :: string
  recording_id :: string
  start_date :: string
  start_time :: string
  header_bytes :: string
  reserved :: string
  records :: string
  duration :: string
  nsignals :: string

definition slice :: "nat \<Rightarrow> nat \<Rightarrow> string \<Rightarrow> string" where
  "slice a b s = take (b - a) (drop a s)"

definition extract_edf_metadata :: "string \<Rightarrow> edf_metadata" where
  "extract_edf_metadata header_str =
     \<lparr>version = strip (slice 0 8 header_str),
      patient_id = strip (slice 8 88 header_str),
      recording_id = strip (slice 88 168 header_str),
      start_date = strip (slice 168 176 header_str),
      start_time = strip (slice 176 184 header_str),
      header_bytes = strip (slice 184 192 header_str),
      reserved = strip (slice 192 236 header_str),
      records = strip (slice 236 244 header_str),
      duration = strip (slice 244 252 header_str),
      nsignals = strip (slice 252 256 header_str)\<rparr>"

text \<open>
  \<open>re.search(r'(\d+)_', name)\<close>: the leftmost position where a run of digits followed by
  an underscore starts; the group is that run.
\<close>

definition match_digits_underscore :: "string \<Rightarrow> string option" where
  "match_digits_underscore s =
     (let ds = takeWhile is_digit s; rest = dropWhile is_digit s
      in if ds \<noteq> [] \<and> rest \<noteq> [] \<and> hd rest = CHR ''_'' then Some ds else None)"

fun search_digits_underscore :: "string \<Rightarrow> string option" where
  "search_digits_underscore [] = None"
| "search_digits_underscore (c # cs) =
     (case match_digits_underscore (c # cs) of
        Some g \<Rightarrow> Some g
      | None \<Rightarrow> search_digits_underscore cs)"

text \<open>
  \<open>generate_correct_filename\<close>; \<open>metadata\<close> is \<open>None\<close> when the file could not be
  read, \<open>file_basename\<close> is \<open>os.path.basename(edf_file)\<close>.
\<close>

definition resolve_patient_id :: "edf_metadata \<Rightarrow> string \<Rightarrow> string option" where
  "resolve_patient_id metadata file_basename =
     (let pid = strip (patient_id metadata) in
      if pid = [] \<or> pid = ''No Database Record''
      then search_digits_underscore file_basename
      else Some pid)"

definition generate_correct_filename :: "edf_metadata option \<Rightarrow> string \<Rightarrow> string option" where
  "generate_correct_filename metadata file_basename =
     (case metadata of
        None \<Rightarrow> None
      | Some md \<Rightarrow>
          (case resolve_patient_id md file_basename of
             None \<Rightarrow> None
           | Some pid \<Rightarrow>
               (case convert_edf_date_time (start_date md) (start_time md) of
                  None \<Rightarrow> None
                | Some date_time_str \<Rightarrow> Some (pid @ [CHR ''_''] @ date_time_str @ ''.edf''))))"

definition get_reference_time_from_edf_metadata :: "(string \<Rightarrow> real option) \<Rightarrow> edf_metadata option
                                                    \<Rightarrow> real option" where
  "get_reference_time_from_edf_metadata pyfloat metadata =
     (case metadata of
        None \<Rightarrow> None
      | Some md \<Rightarrow> Some (parse_edf_time_to_seconds pyfloat (start_time md)))"

section \<open>The multiplexed sample decoder: the data part of \<open>read_edf_file_direct\<close>\<close>

text \<open>
  The header dictionary after parsing, with the fields the data loop and the scaling
  read. Python integers are unbounded: \<open>int\<close>.
\<close>

record signal_info =
  label :: string
  physical_min :: real
  physical_max :: real
  digital_min :: int
  digital_max :: int
  samples_per_record :: int

record edf_header =
  hdr_records :: int
  hdr_duration :: real
  hdr_nsignals :: int
  signals :: "signal_info list"

type_synonym byte = "8 word"
type_synonym int16 = "16 word"

datatype warning = ExceedsAllocated nat | SampleCountMismatch nat nat

record decode_state =
  stream :: "byte list"
  grid :: "int16 list list"
  warnings :: "warning list"

text \<open>\<open>f.read(n)\<close>: at most \<open>n\<close> bytes, fewer at the end of the stream.\<close>

definition f_read :: "int \<Rightarrow> byte list \<Rightarrow> byte list \<times> byte list" where
  "f_read n s = (if n < 0 then (s, []) else (take (nat n) s, drop (nat n) s))"

text \<open>
  \<open>struct.unpack('<' + 'h' * samples, buf)\<close>: little-endian signed 16-bit values; it
  raises \<open>struct.error\<close> unless the buffer has exactly \<open>2 * samples\<close> bytes.
\<close>

definition le_int16 :: "byte \<Rightarrow> byte \<Rightarrow> int16" where
  "le_int16 lo hi = word_of_int (uint lo + 256 * uint hi)"

fun unpack_pairs :: "byte list \<Rightarrow> int16 list" where
  "unpack_pairs (lo # hi # bs) = le_int16 lo hi # unpack_pairs bs"
| "unpack_pairs [b] = []"
| "unpack_pairs [] = []"

definition struct_unpack_h :: "int \<Rightarrow> byte list \<Rightarrow> py_error + int16 list" where
  "struct_unpack_h samples buf =
     (if int (length buf) = 2 * samples then Inr (unpack_pairs buf) else Inl StructError)"

text \<open>A loop whose body can raise stops at the first exception.\<close>

fun for_each :: "('a \<Rightarrow> 's \<Rightarrow> py_error + 's) \<Rightarrow> 'a list \<Rightarrow> 's \<Rightarrow> py_error + 's" where
  "for_each body [] st = Inr st"
| "for_each body (x # xs) st =
     (case body x st of Inl e \<Rightarrow> Inl e | Inr st' \<Rightarrow> for_each body xs st')"

text \<open>\<open>range(n)\<close> for a Python integer.\<close>

definition py_range :: "int \<Rightarrow> nat list" where
  "py_range n = [0..<nat n]"

text \<open>The body of the inner loop, for record \<open>rec\<close> and signal \<open>sig\<close>.\<close>

definition read_block :: "edf_header \<Rightarrow> int \<Rightarrow> nat \<Rightarrow> nat \<Rightarrow> decode_state \<Rightarrow> py_error + decode_state" where
  "read_block header max_samples rec sig st =
     (if sig \<ge> length (signals header) then Inl IndexError
      else
        let samples = samples_per_record (signals header ! sig) in
        if samples > 0 then
          (case f_read (samples * 2) (stream st) of
             (buf, rest) \<Rightarrow>
               (case struct_unpack_h samples buf of
                  Inl e \<Rightarrow> Inl e
                | Inr signal_data \<Rightarrow>
                    let st1 = st\<lparr>stream := rest\<rparr> in
                    if int (length signal_data) = samples then
                      let start_idx = int rec * samples;
                          end_idx = (int rec + 1) * samples
                      in if end_idx \<le> max_samples then
                           Inr (st1\<lparr>grid := (grid st1)[sig :=
                                  take (nat start_idx) (grid st1 ! sig) @ signal_data
                                  @ drop (nat end_idx) (grid st1 ! sig)]\<rparr>)
                         else Inr (st1\<lparr>warnings := warnings st1 @ [ExceedsAllocated sig]\<rparr>)
                    else Inr (st1\<lparr>warnings := warnings st1 @ [SampleCountMismatch sig rec]\<rparr>)))
        else Inr st)"

text \<open>
  \<open>total_samples_per_signal\<close>, \<open>max_samples\<close>, the zero grid of \<open>np.zeros\<close> (which
  raises \<open>ValueError\<close> on a negative dimension) and the two nested loops. The result is
  the grid and the warnings logged; the header is returned as it was given.
\<close>

definition total_samples_per_signal :: "edf_header \<Rightarrow> py_error + int list" where
  "total_samples_per_signal header =
     (if nat (hdr_nsignals header) > length (signals header) then Inl IndexError
      else Inr (map (\<lambda>sig. hdr_records header * samples_per_record (signals header ! sig))
                    (py_range (hdr_nsignals header))))"

definition max_of :: "int list \<Rightarrow> int" where
  "max_of xs = (case xs of [] \<Rightarrow> 0 | y # ys \<Rightarrow> fold max ys y)"

definition read_edf_file_direct :: "edf_header \<Rightarrow> byte list
                                    \<Rightarrow> py_error + (edf_header \<times> int16 list list \<times> warning list)" where
  "read_edf_file_direct header s =
     (case total_samples_per_signal header of
        Inl e \<Rightarrow> Inl e
      | Inr totals \<Rightarrow>
          let max_samples = max_of totals in
          if hdr_nsignals header < 0 \<or> max_samples < 0 then Inl ValueError
          else
            let st0 = \<lparr>stream = s,
                       grid = replicate (nat (hdr_nsignals header)) (replicate (nat max_samples) 0),
                       warnings = []\<rparr>
            in case for_each
                      (\<lambda>rec. for_each (read_block header max_samples rec)
                                       (py_range (hdr_nsignals header)))
                      (py_range (hdr_records header)) st0 of
                 Inl e \<Rightarrow> Inl e
               | Inr st \<Rightarrow> Inr (header, grid st, warnings st))"

section \<open>Physical scaling: the scaling loop of \<open>create_mne_raw_from_edf_data\<close>\<close>

text \<open>
  \<open>edf_data.astype(np.float64)\<close>, then the loop over \<open>enumerate(edf_header['signals'])\<close>.
  The calibration values are Python numbers (\<open>float\<close> and \<open>int\<close> of the header
  parser), so the division by \<open>digital_max - digital_min = 0\<close> raises
  \<open>ZeroDivisionError\<close>; \<open>data_float[i, :]\<close> raises \<open>IndexError\<close> past the last row.
\<close>

definition astype_float :: "int16 list list \<Rightarrow> real list list" where
  "astype_float edf_data = map (map (\<lambda>w. real_of_int (sint w))) edf_data"

fun scaling_loop :: "nat \<Rightarrow> signal_info list \<Rightarrow> real list list \<Rightarrow> py_error + real list list" where
  "scaling_loop i [] data_float = Inr data_float"
| "scaling_loop i (signal # rest) data_float =
     (if physical_max signal \<noteq> physical_min signal then
        if digital_max signal - digital_min signal = 0 then Inl ZeroDivisionError
        else
          let scale = (physical_max signal - physical_min signal)
                        / real_of_int (digital_max signal - digital_min signal);
              offset = physical_min signal - scale * real_of_int (digital_min signal)
          in if i \<ge> length data_float then Inl IndexError
             else scaling_loop (Suc i) rest
                    (data_float[i := map (\<lambda>x. x * scale + offset) (data_float ! i)])
      else scaling_loop (Suc i) rest data_float)"

definition apply_physical_scaling :: "edf_header \<Rightarrow> int16 list list \<Rightarrow> py_error + real list list" where
  "apply_physical_scaling header edf_data = scaling_loop 0 (signals header) (astype_float edf_data)"

text \<open>
  The scaling of one channel as the specification words it (section 4.3): a digital range
  of width zero is tested for before anything is divided and is reported as an error of
  a kind of its own. No code of the repository raises that error; the definition follows
  the specification and is what the loop above is compared with.
\<close>

datatype error_kind = DegenerateCalibration

definition scale_channel_as_specified :: "signal_info \<Rightarrow> real list \<Rightarrow> error_kind + real list" where
  "scale_channel_as_specified signal samples =
     (if physical_max signal \<noteq> physical_min signal then
        if digital_max signal = digital_min signal then Inl DegenerateCalibration
        else
          let scale = (physical_max signal - physical_min signal)
                        / real_of_int (digital_max signal - digital_min signal);
              offset = physical_min signal - scale * real_of_int (digital_min signal)
          in Inr (map (\<lambda>x. x * scale + offset) samples)
      else Inr samples)"

section \<open>The conversion: \<open>convert_edf_to_edfplus\<close>\<close>

text \<open>
  What the conversion reads from the outside: the spreadsheet files found for the
  container with their frames, the container as loaded (\<open>None\<close> when reading the header
  or the recording raises; otherwise record count, record duration and the recording),
  the metadata, the name of the file and the output path if one was given.
\<close>

record conv_input =
  excel_files :: "(string \<times> string list list) list"
  container :: "(int \<times> real \<times> raw) option"
  metadata :: "edf_metadata option"
  file_basename :: string
  file_stem :: string
  output_file :: "string option"

type_synonym annotation = "real \<times> real \<times> string"

text \<open>
  What the conversion does: the value returned, the recording exported (path, data,
  annotations), the name the original was moved to, and the status updates sent to the
  spreadsheet files.
\<close>

record conv_result =
  success :: bool
  exported :: "(string \<times> raw \<times> annotation list) option"
  backup_file :: "string option"
  status_updates :: "(string \<times> status_update list) list"

definition failed :: conv_result where
  "failed = \<lparr>success = False, exported = None, backup_file = None, status_updates = []\<rparr>"

text \<open>\<open>name.replace('.edf', '')\<close>.\<close>

function remove_edf :: "string \<Rightarrow> string" where
  "remove_edf s =
     (if s = [] then []
      else if take 4 s = ''.edf'' then remove_edf (drop 4 s)
      else hd s # remove_edf (tl s))"
  by pat_completeness auto
termination
  by (relation "measure length") (auto simp: neq_Nil_conv)

declare remove_edf.simps [simp del]

text \<open>
  The body of the function up to the status updates. The outer \<open>try\<close> turns every
  exception into \<open>return False\<close>: a container that cannot be read, \<open>raw.times[-1]\<close> on a
  recording without samples (before the reconciliation, in its log lines and for
  \<open>actual_duration\<close>) and an exception of the classification loop. The product
  \<open>n_records * record_duration\<close> is a float product, rounded by \<open>fl\<close>. The export and the
  renaming belong to the library and the file system and are taken to succeed.
\<close>

definition convert_edf_to_edfplus :: "(string \<Rightarrow> real option) \<Rightarrow> (real \<Rightarrow> real) \<Rightarrow> (raw \<Rightarrow> real)
                                      \<Rightarrow> conv_input \<Rightarrow> conv_result" where
  "convert_edf_to_edfplus pyfloat fl times_last inp =
     (if excel_files inp = [] then failed
      else
        (case container inp of
           None \<Rightarrow> failed
         | Some (n_records, record_duration, r) \<Rightarrow>
             let header_duration = fl (real_of_int n_records * record_duration) in
             (case raw_times_last times_last r of
                Inl e \<Rightarrow> failed
              | Inr mne_duration \<Rightarrow>
                  let rc = reconcile fl times_last header_duration r;
                      r' = repaired rc
                  in (case raw_times_last times_last r' of
                        Inl e \<Rightarrow> failed
                      | Inr actual_duration \<Rightarrow>
                          let reference_time =
                                get_reference_time_from_edf_metadata pyfloat (metadata inp)
                          in (case collect_events pyfloat reference_time (excel_files inp) [] Map.empty of
                               (all_events, excel_event_mapping) \<Rightarrow>
                                 if all_events = [] then
                                   \<lparr>success = True,
                                    exported = (case output_file inp of
                                                  None \<Rightarrow> None
                                                | Some out \<Rightarrow> Some (out, r', [])),
                                    backup_file = None, status_updates = []\<rparr>
                                 else
                                   (case align_events (zero_padding_start rc) actual_duration
                                           all_events excel_event_mapping of
                                      Inl e \<Rightarrow> failed
                                    | Inr (st, updates) \<Rightarrow>
                                        let annotations = zip (onsets st) (zip (durations st) (descriptions st));
                                            correct_filename =
                                              (case generate_correct_filename (metadata inp) (file_basename inp) of
                                                 None \<Rightarrow> file_basename inp
                                               | Some f \<Rightarrow> if f = [] then file_basename inp else f)
                                        in (case output_file inp of
                                              None \<Rightarrow>
                                                \<lparr>success = True,
                                                 exported = Some (correct_filename, r', annotations),
                                                 backup_file = Some (file_stem inp @ ''_backup_''
                                                                     @ remove_edf correct_filename @ ''.edf''),
                                                 status_updates = updates\<rparr>
                                            | Some out \<Rightarrow>
                                                \<lparr>success = True, exported = Some (out, r', annotations),
                                                 backup_file = None, status_updates = updates\<rparr>)))))))"

section \<open>Collaborators as instantiated in the worked examples\<close>

text \<open>
  The rounding of a real to the nearest IEEE double, ties to the even significand: with
  \<open>2 ^ e \<le> \<bar>x\<bar> < 2 ^ (e + 1)\<close> the doubles around \<open>x\<close> are the multiples of
  \<open>2 ^ (e - 52)\<close>, and of \<open>2 ^ (- 1074)\<close> below the normal range. The overflow to an
  infinity (from \<open>2 ^ 1024\<close> on) is outside the model. Used only where an example needs a
  concrete \<open>fl\<close>.
\<close>

definition round_half_even :: "real \<Rightarrow> int" where
  "round_half_even x =
     (let f = \<lfloor>x\<rfloor>; d = x - real_of_int f
      in if d < 1 / 2 then f else if d > 1 / 2 then f + 1 else if even f then f else f + 1)"

text \<open>
  \<open>binade n \<bar>x\<bar> 0\<close> is the exponent \<open>e\<close> with \<open>2 ^ e \<le> \<bar>x\<bar> < 2 ^ (e + 1)\<close>, found by
  halving or doubling in at most \<open>n\<close> steps; the normal range needs fewer than 1100.
\<close>

fun binade :: "nat \<Rightarrow> real \<Rightarrow> int \<Rightarrow> int" where
  "binade 0 y e = e"
| "binade (Suc n) y e =
     (if y \<ge> 2 then binade n (y / 2) (e + 1)
      else if y < 1 then binade n (y * 2) (e - 1)
      else e)"

definition pow2 :: "int \<Rightarrow> real" where
  "pow2 e = (if e \<ge> 0 then 2 ^ nat e else 1 / 2 ^ nat (- e))"

definition fl64 :: "real \<Rightarrow> real" where
  "fl64 x =
     (if x = 0 then 0
      else let e = max (binade 1100 \<bar>x\<bar> 0) (- 1022)
           in real_of_int (round_half_even (x * pow2 (52 - e))) * pow2 (e - 52))"

text \<open>
  The time-series library's \<open>raw.times[-1]\<close> on a recording with samples: the time stamp
  of the last of \<open>n\<close> samples, the float quotient \<open>(n - 1) / sfreq\<close>. Used only where an
  example needs a concrete \<open>times_last\<close>.
\<close>

definition mne_times_last :: "raw \<Rightarrow> real" where
  "mne_times_last r = fl64 ((real (shape1 (data r)) - 1) / sfreq r)"

text \<open>
  \<open>float\<close> on the strings of exactly two decimal digits, where it is the number they
  spell. Used only where an example needs a concrete \<open>pyfloat\<close>, on such strings.
\<close>

definition two_digit_float :: "string \<Rightarrow> real option" where
  "two_digit_float s =
     (case s of
        [a, b] \<Rightarrow> if is_digit a \<and> is_digit b
                  then Some (real (10 * digit_val a + digit_val b)) else None
      | _ \<Rightarrow> None)"

section \<open>Properties\<close>

subsection \<open>Event alignment\<close>





lemma clamp_scenario:
  "classify None 60 (1201 / 20) = INCLUDED \<and> clamped_onset 60 (1201 / 20) = 60
   \<and> classify None 60 (301 / 5) = EXCLUDED_OUT_OF_RANGE"
  by (simp add: classify_def clamped_onset_def)

subsection \<open>Physical scaling\<close>

lemma scaling_loop_degenerate:
  assumes "k < length sigs"
    and "physical_max (sigs ! k) \<noteq> physical_min (sigs ! k)"
    and "digital_max (sigs ! k) = digital_min (sigs ! k)"
    and "i + k < length d"
  shows "scaling_loop i sigs d = Inl ZeroDivisionError"
  using assms
proof (induction sigs arbitrary: i k d)
  case Nil
  then show ?case by simp
next
  case (Cons s rest)
  show ?case
  proof (cases k)
    case 0
    with Cons.prems show ?thesis by simp
  next
    case (Suc k')
    have step: "scaling_loop (Suc i) rest d' = Inl ZeroDivisionError" if "length d' = length d" for d'
      using Cons.IH [of k' "Suc i" d'] Cons.prems Suc that by simp
    from Cons.prems Suc have "i < length d" by simp
    then show ?thesis
      using step by (simp add: Let_def)
  qed
qed

lemma scaling_loop_result:
  assumes "scaling_loop i sigs d = Inr out"
  shows "length out = length d \<and> (\<forall>j<i. out ! j = d ! j)
    \<and> (\<forall>k<length sigs. physical_max (sigs ! k) = physical_min (sigs ! k) \<longrightarrow> out ! (i + k) = d ! (i + k))"
  using assms
proof (induction sigs arbitrary: i d)
  case Nil
  then show ?case by simp
next
  case (Cons s rest)
  show ?case
  proof (cases "physical_max s = physical_min s")
    case True
    with Cons.prems have rec: "scaling_loop (Suc i) rest d = Inr out" by simp
    from Cons.IH [OF rec] have ih: "length out = length d" "\<forall>j<Suc i. out ! j = d ! j"
      "\<forall>k<length rest. physical_max (rest ! k) = physical_min (rest ! k) \<longrightarrow> out ! (Suc i + k) = d ! (Suc i + k)"
      by auto
    show ?thesis
    proof (intro conjI allI impI)
      show "length out = length d" by (rule ih)
      show "out ! j = d ! j" if "j < i" for j using ih(2) that by simp
      show "out ! (i + k) = d ! (i + k)"
        if "k < length (s # rest)" "physical_max ((s # rest) ! k) = physical_min ((s # rest) ! k)" for k
        using that ih(2,3) by (cases k) auto
    qed
  next
    case False
    define d' where "d' = d[i := map (\<lambda>x. x * ((physical_max s - physical_min s) / real_of_int (digital_max s - digital_min s))
        + (physical_min s - ((physical_max s - physical_min s) / real_of_int (digital_max s - digital_min s)) * real_of_int (digital_min s))) (d ! i)]"
    from False Cons.prems have rec: "scaling_loop (Suc i) rest d' = Inr out"
      by (auto simp: Let_def d'_def split: if_splits)
    from Cons.IH [OF rec] have ih: "length out = length d'" "\<forall>j<Suc i. out ! j = d' ! j"
      "\<forall>k<length rest. physical_max (rest ! k) = physical_min (rest ! k) \<longrightarrow> out ! (Suc i + k) = d' ! (Suc i + k)"
      by auto
    have len: "length d' = length d" by (simp add: d'_def)
    have other: "d' ! j = d ! j" if "j \<noteq> i" for j using that by (simp add: d'_def)
    show ?thesis
    proof (intro conjI allI impI)
      show "length out = length d" using ih(1) len by simp
      show "out ! j = d ! j" if "j < i" for j using ih(2) that other [of j] by simp
      show "out ! (i + k) = d ! (i + k)"
        if "k < length (s # rest)" "physical_max ((s # rest) ! k) = physical_min ((s # rest) ! k)" for k
      proof (cases k)
        case 0
        with that False show ?thesis by simp
      next
        case (Suc k')
        with that ih(3) other [of "Suc i + k'"] show ?thesis by simp
      qed
    qed
  qed
qed

lemma scaling_loop_total:
  assumes "\<forall>s\<in>set sigs. physical_max s \<noteq> physical_min s \<longrightarrow> digital_max s \<noteq> digital_min s"
    and "i + length sigs \<le> length d"
  shows "\<exists>out. scaling_loop i sigs d = Inr out"
  using assms
proof (induction sigs arbitrary: i d)
  case Nil
  then show ?case by simp
next
  case (Cons s rest)
  have "\<exists>out. scaling_loop (Suc i) rest d' = Inr out" if "length d' = length d" for d'
    using Cons.IH [of "Suc i" d'] Cons.prems that by simp
  moreover from Cons.prems have "i < length d" by simp
  ultimately show ?case
    using Cons.prems(1) by (simp add: Let_def)
qed

lemma length_astype_float: "length (astype_float g) = length g"
  by (simp add: astype_float_def)

lemma nth_astype_float: "k < length g \<Longrightarrow> astype_float g ! k = map (\<lambda>w. real_of_int (sint w)) (g ! k)"
  by (simp add: astype_float_def)

text \<open>
  Claim C4, as amended. When some channel has \<open>physical_max \<noteq> physical_min\<close> and
  \<open>digital_max = digital_min\<close>, the scaling loop on a grid with one row per channel
  does perform the division: Python raises \<open>ZeroDivisionError\<close> there and the loop ends
  with that exception. The source has no test of the digital range and no error kind of
  its own for it. No matrix is returned, so no infinity reaches the output.
\<close>

theorem degenerate_calibration_raises:
  assumes "length edf_data = length (signals header)"
    and "k < length (signals header)"
    and "physical_max (signals header ! k) \<noteq> physical_min (signals header ! k)"
    and "digital_max (signals header ! k) = digital_min (signals header ! k)"
  shows "apply_physical_scaling header edf_data = Inl ZeroDivisionError"
  unfolding apply_physical_scaling_def
  using assms by (intro scaling_loop_degenerate [where k = k]) (simp_all add: length_astype_float)

text \<open>Two channels, the second with a digital range of width zero.\<close>

theorem degenerate_calibration_raises_witness:
  "apply_physical_scaling
     \<lparr>hdr_records = 1, hdr_duration = 1, hdr_nsignals = 2,
      signals = [\<lparr>label = ''C3'', physical_min = - 100, physical_max = 100,
                  digital_min = - 2048, digital_max = 2047, samples_per_record = 2\<rparr>,
                 \<lparr>label = ''C4'', physical_min = - 100, physical_max = 100,
                  digital_min = 0, digital_max = 0, samples_per_record = 2\<rparr>]\<rparr>
     [[1, 2], [3, 4]] = Inl ZeroDivisionError"
  using degenerate_calibration_raises [of "[[1, 2], [3, 4]]"
      "\<lparr>hdr_records = 1, hdr_duration = 1, hdr_nsignals = 2,
      signals = [\<lparr>label = ''C3'', physical_min = - 100, physical_max = 100,
                  digital_min = - 2048, digital_max = 2047, samples_per_record = 2\<rparr>,
                 \<lparr>label = ''C4'', physical_min = - 100, physical_max = 100,
                  digital_min = 0, digital_max = 0, samples_per_record = 2\<rparr>]\<rparr>" 1]
  by simp

text \<open>
  Claim C4 as stated fails. On a channel with physical range -100 .. 100 and digital range
  0 .. 0 the transform of the specification reports \<open>DegenerateCalibration\<close> without
  dividing; the loop of the source divides by zero and ends with Python's
  \<open>ZeroDivisionError\<close>.
\<close>

theorem unchecked_division_counterexample:
  "scale_channel_as_specified
     \<lparr>label = ''C4'', physical_min = - 100, physical_max = 100,
      digital_min = 0, digital_max = 0, samples_per_record = 2\<rparr> [3, 4]
     = Inl DegenerateCalibration
   \<and> apply_physical_scaling
       \<lparr>hdr_records = 1, hdr_duration = 1, hdr_nsignals = 1,
        signals = [\<lparr>label = ''C4'', physical_min = - 100, physical_max = 100,
                    digital_min = 0, digital_max = 0, samples_per_record = 2\<rparr>]\<rparr>
       [[3, 4]] = Inl ZeroDivisionError"
  by (simp add: scale_channel_as_specified_def apply_physical_scaling_def astype_float_def)

text \<open>
  Claim C9. On a grid with one row per channel, whenever the scaling transform returns,
  each channel with \<open>physical_max = physical_min\<close> holds its stored samples cast to
  real, unchanged; and it does return whenever every channel that is scaled has a digital
  range of non-zero width, whatever the digital range of the channels passed through: no
  division is performed for them.
\<close>

theorem passthrough_is_identity:
  assumes "length edf_data = length (signals header)"
  shows "(\<forall>out k. apply_physical_scaling header edf_data = Inr out \<and> k < length (signals header)
             \<and> physical_max (signals header ! k) = physical_min (signals header ! k)
           \<longrightarrow> out ! k = map (\<lambda>w. real_of_int (sint w)) (edf_data ! k))
       \<and> ((\<forall>s\<in>set (signals header). physical_max s \<noteq> physical_min s \<longrightarrow> digital_max s \<noteq> digital_min s)
           \<longrightarrow> (\<exists>out. apply_physical_scaling header edf_data = Inr out \<and> length out = length edf_data))"
proof (intro conjI allI impI)
  fix out k
  assume h: "apply_physical_scaling header edf_data = Inr out \<and> k < length (signals header)
             \<and> physical_max (signals header ! k) = physical_min (signals header ! k)"
  then have "scaling_loop 0 (signals header) (astype_float edf_data) = Inr out"
    by (simp add: apply_physical_scaling_def)
  from scaling_loop_result [OF this] h have "out ! k = astype_float edf_data ! k" by auto
  with h assms show "out ! k = map (\<lambda>w. real_of_int (sint w)) (edf_data ! k)"
    by (simp add: nth_astype_float)
next
  assume t: "\<forall>s\<in>set (signals header). physical_max s \<noteq> physical_min s \<longrightarrow> digital_max s \<noteq> digital_min s"
  from scaling_loop_total [OF t, of 0 "astype_float edf_data"] assms
  obtain out where o: "scaling_loop 0 (signals header) (astype_float edf_data) = Inr out"
    by (auto simp: length_astype_float)
  from scaling_loop_result [OF o] have "length out = length edf_data" by (simp add: length_astype_float)
  with o show "\<exists>out. apply_physical_scaling header edf_data = Inr out \<and> length out = length edf_data"
    by (simp add: apply_physical_scaling_def)
qed

text \<open>
  A scaled channel and a channel with all four calibration values zero: the second comes
  out as stored.
\<close>

theorem passthrough_is_identity_witness:
  "\<exists>out. apply_physical_scaling
     \<lparr>hdr_records = 1, hdr_duration = 1, hdr_nsignals = 2,
      signals = [\<lparr>label = ''C3'', physical_min = - 100, physical_max = 100,
                  digital_min = - 2048, digital_max = 2047, samples_per_record = 2\<rparr>,
                 \<lparr>label = ''MK'', physical_min = 0, physical_max = 0,
                  digital_min = 0, digital_max = 0, samples_per_record = 2\<rparr>]\<rparr>
     [[1, 2], [3, - 4]] = Inr out \<and> out ! 1 = [3, - 4]"
proof -
  let ?h = "\<lparr>hdr_records = 1, hdr_duration = 1, hdr_nsignals = 2,
      signals = [\<lparr>label = ''C3'', physical_min = - 100, physical_max = 100,
                  digital_min = - 2048, digital_max = 2047, samples_per_record = 2\<rparr>,
                 \<lparr>label = ''MK'', physical_min = 0, physical_max = 0,
                  digital_min = 0, digital_max = 0, samples_per_record = 2\<rparr>]\<rparr>"
  let ?g = "[[1, 2], [3, - 4]] :: int16 list list"
  have l: "length ?g = length (signals ?h)" by simp
  have t: "\<forall>s\<in>set (signals ?h). physical_max s \<noteq> physical_min s \<longrightarrow> digital_max s \<noteq> digital_min s"
    by simp
  from passthrough_is_identity [OF l] t
  obtain out where o: "apply_physical_scaling ?h ?g = Inr out" by blast
  from passthrough_is_identity [OF l] o
  have "out ! 1 = map (\<lambda>w. real_of_int (sint w)) (?g ! 1)"
    by (metis (no_types, lifting) l length_Cons list.size(3) nth_Cons_0 nth_Cons_Suc
        One_nat_def lessI select_convs(2) signal_info.select_convs(2,3) edf_header.select_convs(4))
  then have "out ! 1 = [3, - 4]" by simp
  with o show ?thesis by blast
qed

subsection \<open>Duration reconciliation\<close>

text \<open>The rounding \<open>fl64\<close> evaluated: one step of the search for the exponent.\<close>

lemma binade_unfold:
  "binade n y e =
     (if n = 0 then e
      else if y \<ge> 2 then binade (n - 1) (y / 2) (e + 1)
      else if y < 1 then binade (n - 1) (y * 2) (e - 1)
      else e)"
  by (cases n) auto

lemmas fl64_eval = fl64_def binade_unfold pow2_def round_half_even_def Let_def

lemma fl64_integers:
  "fl64 0 = 0" "fl64 7 = 7" "fl64 8 = 8" "fl64 9 = 9" "fl64 45 = 45" "fl64 46 = 46"
  by (simp_all add: fl64_eval)

lemma reconcile_target:
  assumes "\<bar>fl (times_last r - header_duration)\<bar> > fl (1 / 100)"
  shows "target_samples (reconcile fl times_last header_duration r)
           = Some (py_int_of_real (fl (header_duration * sfreq r)))"
  using assms by (simp add: reconcile_def Let_def)

lemma reconcile_lengths:
  assumes "\<bar>fl (times_last r - header_duration)\<bar> > fl (1 / 100)"
    and "\<forall>row\<in>set (data r). length row = shape1 (data r)"
    and "action (reconcile fl times_last header_duration r) \<in> {Pad, Truncate}"
    and "0 \<le> py_int_of_real (fl (header_duration * sfreq r))"
    and "row \<in> set (data (repaired (reconcile fl times_last header_duration r)))"
  shows "int (length row) = py_int_of_real (fl (header_duration * sfreq r))"
  using assms
  by (auto simp: reconcile_def Let_def py_take_def split: if_splits)

text \<open>The three branches of the reconciliation once the durations differ.\<close>

lemma reconcile_truncate:
  assumes "\<bar>fl (times_last r - header_duration)\<bar> > fl (1 / 100)"
    and "py_int_of_real (fl (header_duration * sfreq r)) = t"
    and "t < int (shape1 (data r))"
  shows "reconcile fl times_last header_duration r
           = \<lparr>action = Truncate, target_samples = Some t,
              repaired = r\<lparr>data := map (py_take t) (data r)\<rparr>, zero_padding_start = None\<rparr>"
  using assms by (simp add: reconcile_def Let_def)

lemma reconcile_pad:
  assumes "\<bar>fl (times_last r - header_duration)\<bar> > fl (1 / 100)"
    and "py_int_of_real (fl (header_duration * sfreq r)) = t"
    and "t > int (shape1 (data r))"
  shows "reconcile fl times_last header_duration r
           = \<lparr>action = Pad, target_samples = Some t,
              repaired = r\<lparr>data := map (\<lambda>row. row @ replicate (nat (t - int (shape1 (data r)))) 0) (data r)\<rparr>,
              zero_padding_start = Some (times_last r)\<rparr>"
  using assms by (simp add: reconcile_def Let_def)

lemma reconcile_same:
  assumes "\<bar>fl (times_last r - header_duration)\<bar> > fl (1 / 100)"
    and "py_int_of_real (fl (header_duration * sfreq r)) = int (shape1 (data r))"
  shows "reconcile fl times_last header_duration r
           = \<lparr>action = NoAction, target_samples = Some (int (shape1 (data r))),
              repaired = r, zero_padding_start = None\<rparr>"
  using assms by (simp add: reconcile_def Let_def)

text \<open>
  The scenario of the specification: 10 s declared, 901 samples at 100 Hz on two channels,
  so 9 s measured; the target is 1000 samples and 99 zeros are appended to each channel.
\<close>

lemma padded_scenario:
  "mne_times_last \<lparr>sfreq = 100, data = [replicate 901 1, replicate 901 2]\<rparr> = 9"
  "reconcile fl64 mne_times_last 10 \<lparr>sfreq = 100, data = [replicate 901 1, replicate 901 2]\<rparr>
     = \<lparr>action = Pad, target_samples = Some 1000,
        repaired = \<lparr>sfreq = 100, data = [replicate 901 1 @ replicate 99 0, replicate 901 2 @ replicate 99 0]\<rparr>,
        zero_padding_start = Some 9\<rparr>"
proof -
  let ?r = "\<lparr>sfreq = 100, data = [replicate 901 (1::real), replicate 901 2]\<rparr>"
  show t: "mne_times_last ?r = 9"
    by (simp add: mne_times_last_def shape1_def fl64_integers)
  have c: "\<bar>fl64 (mne_times_last ?r - 10)\<bar> > fl64 (1 / 100)"
    unfolding t by (simp add: fl64_eval)
  have p: "py_int_of_real (fl64 (10 * sfreq ?r)) = 1000"
    by (simp add: py_int_of_real_def fl64_eval)
  have s: "(1000::int) > int (shape1 (data ?r))"
    by (simp add: shape1_def)
  from reconcile_pad [where fl = fl64 and times_last = mne_times_last, OF c p s] t
  show "reconcile fl64 mne_times_last 10 ?r
     = \<lparr>action = Pad, target_samples = Some 1000,
        repaired = \<lparr>sfreq = 100, data = [replicate 901 1 @ replicate 99 0, replicate 901 2 @ replicate 99 0]\<rparr>,
        zero_padding_start = Some 9\<rparr>"
    by (simp add: shape1_def)
qed

text \<open>
  A recording of 29 records of 0.02 s with one sample per record: 29 samples at 50 Hz.
  The header duration is the float product \<open>29 * 0.02\<close>, the double just below 0.58;
  its float product with 50 is the double just below 29, which \<open>int\<close> truncates to 28.
\<close>

lemma consistent_file:
  "fl64 (29 * fl64 (2 / 100)) = 5224175567749775 / 9007199254740992"
  "\<bar>fl64 (mne_times_last \<lparr>sfreq = 50, data = [replicate 29 1]\<rparr> - fl64 (29 * fl64 (2 / 100)))\<bar>
     > fl64 (1 / 100)"
  "fl64 (fl64 (29 * fl64 (2 / 100)) * sfreq \<lparr>sfreq = 50, data = [replicate 29 1]\<rparr>)
     = 8162774324609023 / 281474976710656"
proof -
  let ?r = "\<lparr>sfreq = 50, data = [replicate 29 (1::real)]\<rparr>"
  show hd: "fl64 (29 * fl64 (2 / 100)) = 5224175567749775 / 9007199254740992"
    by (simp add: fl64_eval)
  have t: "mne_times_last ?r = 1261007895663739 / 2251799813685248"
    by (simp add: mne_times_last_def shape1_def fl64_eval)
  show "\<bar>fl64 (mne_times_last ?r - fl64 (29 * fl64 (2 / 100)))\<bar> > fl64 (1 / 100)"
    unfolding hd t by (simp add: fl64_eval)
  show "fl64 (fl64 (29 * fl64 (2 / 100)) * sfreq ?r) = 8162774324609023 / 281474976710656"
    unfolding hd by (simp add: fl64_eval)
qed

lemma consistent_file_reconciled:
  "reconcile fl64 mne_times_last (fl64 (29 * fl64 (2 / 100))) \<lparr>sfreq = 50, data = [replicate 29 1]\<rparr>
     = \<lparr>action = Truncate, target_samples = Some 28,
        repaired = \<lparr>sfreq = 50, data = [replicate 28 1]\<rparr>, zero_padding_start = None\<rparr>"
proof -
  let ?r = "\<lparr>sfreq = 50, data = [replicate 29 (1::real)]\<rparr>"
  have p: "py_int_of_real (fl64 (fl64 (29 * fl64 (2 / 100)) * sfreq ?r)) = 28"
    unfolding consistent_file(3) by (simp add: py_int_of_real_def)
  have s: "(28::int) < int (shape1 (data ?r))"
    by (simp add: shape1_def)
  from reconcile_truncate [where fl = fl64 and times_last = mne_times_last, OF consistent_file(2) p s]
  show ?thesis by (simp add: py_take_def)
qed

text \<open>
  A header with -1 records of 1 s (the count is not known yet), 1000 samples at 100 Hz.
\<close>

lemma negative_header_reconciled:
  "reconcile fl64 mne_times_last (- 1) \<lparr>sfreq = 100, data = [replicate 1000 1]\<rparr>
     = \<lparr>action = Truncate, target_samples = Some (- 100),
        repaired = \<lparr>sfreq = 100, data = [replicate 900 1]\<rparr>, zero_padding_start = None\<rparr>"
proof -
  let ?r = "\<lparr>sfreq = 100, data = [replicate 1000 (1::real)]\<rparr>"
  have t: "mne_times_last ?r = 5623870034678907 / 562949953421312"
    by (simp add: mne_times_last_def shape1_def fl64_eval)
  have c: "\<bar>fl64 (mne_times_last ?r - (- 1))\<bar> > fl64 (1 / 100)"
    unfolding t by (simp add: fl64_eval)
  have p: "py_int_of_real (fl64 (- 1 * sfreq ?r)) = - 100"
    by (simp add: py_int_of_real_def fl64_eval)
  have s: "(- 100::int) < int (shape1 (data ?r))"
    by (simp add: shape1_def)
  from reconcile_truncate [where fl = fl64 and times_last = mne_times_last, OF c p s]
  show ?thesis by (simp add: py_take_def)
qed

text \<open>
  Claim C5, as amended. Whenever the float difference of the measured and the header
  duration exceeds 0.01 in absolute value, the target sample count is
  \<open>int(header_duration * sample_rate)\<close>: the float product (the exact product rounded to
  a double) truncated towards zero, not rounded to the nearest integer; and whenever the
  action is pad or truncate and that target is not negative, every channel of the
  repaired data has exactly that many samples.
\<close>

theorem target_is_truncated_product:
  assumes "\<bar>fl (times_last r - header_duration)\<bar> > fl (1 / 100)"
    and "\<forall>row\<in>set (data r). length row = shape1 (data r)"
  shows "target_samples (reconcile fl times_last header_duration r)
           = Some (py_int_of_real (fl (header_duration * sfreq r)))
       \<and> (action (reconcile fl times_last header_duration r) \<in> {Pad, Truncate}
            \<and> 0 \<le> py_int_of_real (fl (header_duration * sfreq r))
          \<longrightarrow> (\<forall>row\<in>set (data (repaired (reconcile fl times_last header_duration r))).
                 int (length row) = py_int_of_real (fl (header_duration * sfreq r))))"
proof -
  have "target_samples (reconcile fl times_last header_duration r)
          = Some (py_int_of_real (fl (header_duration * sfreq r)))"
    using assms(1) by (rule reconcile_target)
  moreover have "int (length row) = py_int_of_real (fl (header_duration * sfreq r))"
    if "action (reconcile fl times_last header_duration r) \<in> {Pad, Truncate}"
      and "0 \<le> py_int_of_real (fl (header_duration * sfreq r))"
      and "row \<in> set (data (repaired (reconcile fl times_last header_duration r)))" for row
    using assms that by (rule reconcile_lengths)
  ultimately show ?thesis by blast
qed

text \<open>
  10 s declared over 901 samples at 100 Hz: target 1000, both channels padded to 1000.
\<close>

theorem target_is_truncated_product_witness:
  "\<bar>fl64 (mne_times_last \<lparr>sfreq = 100, data = [replicate 901 1, replicate 901 2]\<rparr> - 10)\<bar> > fl64 (1 / 100)
   \<and> target_samples (reconcile fl64 mne_times_last 10
                       \<lparr>sfreq = 100, data = [replicate 901 1, replicate 901 2]\<rparr>) = Some 1000
   \<and> map length (data (repaired (reconcile fl64 mne_times_last 10
                                    \<lparr>sfreq = 100, data = [replicate 901 1, replicate 901 2]\<rparr>)))
       = [1000, 1000]"
proof -
  let ?r = "\<lparr>sfreq = 100, data = [replicate 901 (1::real), replicate 901 2]\<rparr>"
  have d: "\<bar>fl64 (mne_times_last ?r - 10)\<bar> > fl64 (1 / 100)"
    unfolding padded_scenario(1) by (simp add: fl64_eval)
  have q: "\<forall>row\<in>set (data ?r). length row = shape1 (data ?r)"
    by (simp add: shape1_def)
  have p: "py_int_of_real (fl64 (10 * sfreq ?r)) = 1000"
    by (simp add: py_int_of_real_def fl64_eval)
  have a: "action (reconcile fl64 mne_times_last 10 ?r) = Pad"
    by (simp add: padded_scenario(2))
  have n: "length (data (repaired (reconcile fl64 mne_times_last 10 ?r))) = 2"
    by (simp add: padded_scenario(2))
  from target_is_truncated_product
         [where fl = fl64 and times_last = mne_times_last and r = ?r and header_duration = 10] d q a
  have t: "target_samples (reconcile fl64 mne_times_last 10 ?r) = Some 1000"
    and l: "\<forall>row\<in>set (data (repaired (reconcile fl64 mne_times_last 10 ?r))). length row = 1000"
    unfolding p by simp_all
  from n obtain x y where "data (repaired (reconcile fl64 mne_times_last 10 ?r)) = [x, y]"
    by (auto simp: length_Suc_conv numeral_2_eq_2)
  with l have "map length (data (repaired (reconcile fl64 mne_times_last 10 ?r))) = [1000, 1000]"
    by simp
  with t d show ?thesis by simp
qed

text \<open>
  Claim C5 as stated fails. On the recording of 29 records of 0.02 s the header duration
  is the double just below 0.58 and its product with 50 Hz the double just below 29: the
  target is 28 where rounding gives 29, and the action is truncate although the 29 samples
  are what the header declares. With a header duration of -1 s at 100 Hz over 1000 samples
  the target is -100, the action is truncate and the slice \<open>data[:, :-100]\<close> leaves 900
  samples, not the target.
\<close>

theorem target_not_rounded_counterexample:
  "fl64 (29 * fl64 (2 / 100)) = 5224175567749775 / 9007199254740992
   \<and> target_samples (reconcile fl64 mne_times_last (fl64 (29 * fl64 (2 / 100)))
                       \<lparr>sfreq = 50, data = [replicate 29 1]\<rparr>) = Some 28
   \<and> round (fl64 (fl64 (29 * fl64 (2 / 100)) * 50)) = 29
   \<and> action (reconcile fl64 mne_times_last (fl64 (29 * fl64 (2 / 100)))
                \<lparr>sfreq = 50, data = [replicate 29 1]\<rparr>) = Truncate
   \<and> target_samples (reconcile fl64 mne_times_last (- 1) \<lparr>sfreq = 100, data = [replicate 1000 1]\<rparr>)
       = Some (- 100)
   \<and> action (reconcile fl64 mne_times_last (- 1) \<lparr>sfreq = 100, data = [replicate 1000 1]\<rparr>) = Truncate
   \<and> map length (data (repaired (reconcile fl64 mne_times_last (- 1)
                                    \<lparr>sfreq = 100, data = [replicate 1000 1]\<rparr>))) = [900]"
proof -
  have p: "fl64 (fl64 (29 * fl64 (2 / 100)) * 50) = 8162774324609023 / 281474976710656"
    unfolding consistent_file(1) by (simp add: fl64_eval)
  have "round (fl64 (fl64 (29 * fl64 (2 / 100)) * 50)) = 29"
    unfolding p by (simp add: round_def)
  then show ?thesis
    unfolding consistent_file_reconciled negative_header_reconciled
    using consistent_file(1) by simp
qed

text \<open>
  Claim C6. Whenever the action is pad, \<open>zero_padding_start\<close> is the duration measured
  before padding, the channels are the same in number, every channel keeps its original
  samples as a prefix, and every sample at an index at or past the original sample count
  of its channel is exactly zero.
\<close>

theorem pad_is_zero_filled:
  assumes "action (reconcile fl times_last header_duration r) = Pad"
  shows "zero_padding_start (reconcile fl times_last header_duration r) = Some (times_last r)
       \<and> length (data (repaired (reconcile fl times_last header_duration r))) = length (data r)
       \<and> (\<forall>c<length (data r). \<forall>j.
             length (data r ! c) \<le> j \<and> j < length (data (repaired (reconcile fl times_last header_duration r)) ! c)
             \<longrightarrow> data (repaired (reconcile fl times_last header_duration r)) ! c ! j = 0)
       \<and> (\<forall>c<length (data r).
             take (length (data r ! c)) (data (repaired (reconcile fl times_last header_duration r)) ! c) = data r ! c)"
  using assms
  by (auto simp: reconcile_def Let_def nth_append split: if_splits)

text \<open>
  The scenario of the specification: 10 s declared, 9 s measured at 100 Hz (901 samples):
  padded, \<open>zero_padding_start = 9\<close>, and sample 950 of the second channel is zero.
\<close>

theorem pad_is_zero_filled_witness:
  "action (reconcile fl64 mne_times_last 10 \<lparr>sfreq = 100, data = [replicate 901 1, replicate 901 2]\<rparr>) = Pad
   \<and> zero_padding_start (reconcile fl64 mne_times_last 10 \<lparr>sfreq = 100, data = [replicate 901 1, replicate 901 2]\<rparr>) = Some 9
   \<and> data (repaired (reconcile fl64 mne_times_last 10 \<lparr>sfreq = 100, data = [replicate 901 1, replicate 901 2]\<rparr>)) ! 1 ! 950 = 0"
proof -
  let ?r = "\<lparr>sfreq = 100, data = [replicate 901 1, replicate 901 2]\<rparr>"
  have a: "action (reconcile fl64 mne_times_last 10 ?r) = Pad"
    by (simp add: padded_scenario(2))
  have l: "length (data (repaired (reconcile fl64 mne_times_last 10 ?r)) ! 1) = 1000"
    by (simp add: padded_scenario(2))
  note t = padded_scenario(1)
  from pad_is_zero_filled [OF a] a l t show ?thesis by simp
qed

subsection \<open>A conversion without events\<close>


text \<open>
  8 samples at 1 Hz: 7 s measured. With 8 s declared the target is the 8 samples there
  are; with 0 s declared the target is 0 and the recording is truncated to no samples.
\<close>

lemma eight_second_recording:
  "mne_times_last \<lparr>sfreq = 1, data = [replicate 8 1]\<rparr> = 7"
  "reconcile fl64 mne_times_last 8 \<lparr>sfreq = 1, data = [replicate 8 1]\<rparr>
     = \<lparr>action = NoAction, target_samples = Some 8,
        repaired = \<lparr>sfreq = 1, data = [replicate 8 1]\<rparr>, zero_padding_start = None\<rparr>"
  "reconcile fl64 mne_times_last 0 \<lparr>sfreq = 1, data = [replicate 8 1]\<rparr>
     = \<lparr>action = Truncate, target_samples = Some 0,
        repaired = \<lparr>sfreq = 1, data = [[]]\<rparr>, zero_padding_start = None\<rparr>"
proof -
  let ?r = "\<lparr>sfreq = 1, data = [replicate 8 (1::real)]\<rparr>"
  show t: "mne_times_last ?r = 7"
    by (simp add: mne_times_last_def shape1_def fl64_integers)
  have c: "\<bar>fl64 (mne_times_last ?r - 8)\<bar> > fl64 (1 / 100)"
    unfolding t by (simp add: fl64_eval)
  have p: "py_int_of_real (fl64 (8 * sfreq ?r)) = int (shape1 (data ?r))"
    by (simp add: py_int_of_real_def shape1_def fl64_integers)
  from reconcile_same [where fl = fl64 and times_last = mne_times_last, OF c p]
  show "reconcile fl64 mne_times_last 8 ?r
     = \<lparr>action = NoAction, target_samples = Some 8, repaired = ?r, zero_padding_start = None\<rparr>"
    by (simp add: shape1_def)
  have c0: "\<bar>fl64 (mne_times_last ?r - 0)\<bar> > fl64 (1 / 100)"
    unfolding t by (simp add: fl64_eval)
  have p0: "py_int_of_real (fl64 (0 * sfreq ?r)) = 0"
    by (simp add: py_int_of_real_def fl64_integers)
  have s0: "(0::int) < int (shape1 (data ?r))"
    by (simp add: shape1_def)
  from reconcile_truncate [where fl = fl64 and times_last = mne_times_last, OF c0 p0 s0]
  show "reconcile fl64 mne_times_last 0 ?r
     = \<lparr>action = Truncate, target_samples = Some 0,
        repaired = \<lparr>sfreq = 1, data = [[]]\<rparr>, zero_padding_start = None\<rparr>"
    by (simp add: py_take_def)
qed




subsection \<open>The decoder on a truncated stream\<close>

lemma complete_stream_decodes:
  "read_edf_file_direct
     \<lparr>hdr_records = 1, hdr_duration = 1, hdr_nsignals = 1,
      signals = [\<lparr>label = ''EEG'', physical_min = - 100, physical_max = 100,
                  digital_min = - 32768, digital_max = 32767, samples_per_record = 2\<rparr>]\<rparr>
     [1, 0, 255, 255]
   = Inr (\<lparr>hdr_records = 1, hdr_duration = 1, hdr_nsignals = 1,
      signals = [\<lparr>label = ''EEG'', physical_min = - 100, physical_max = 100,
                  digital_min = - 32768, digital_max = 32767, samples_per_record = 2\<rparr>]\<rparr>, [[1, - 1]], [])"
  by (simp add: read_edf_file_direct_def total_samples_per_signal_def py_range_def max_of_def
                read_block_def f_read_def struct_unpack_h_def le_int16_def Let_def)

text \<open>
  Claim C3 fails on the code. One record, one channel of two samples per record, and a
  stream that ends after two of the four bytes: \<open>struct.unpack\<close> raises on the short
  buffer before the length check of the source is reached, so the decode returns neither
  header nor grid.
\<close>

theorem truncated_stream_raises:
  "read_edf_file_direct
     \<lparr>hdr_records = 1, hdr_duration = 1, hdr_nsignals = 1,
      signals = [\<lparr>label = ''EEG'', physical_min = - 100, physical_max = 100,
                  digital_min = - 32768, digital_max = 32767, samples_per_record = 2\<rparr>]\<rparr>
     [1, 0] = Inl StructError"
  by (simp add: read_edf_file_direct_def total_samples_per_signal_def py_range_def max_of_def
                read_block_def f_read_def struct_unpack_h_def Let_def)

subsection \<open>Filename derivation\<close>

lemma split_on_no_sep: "c \<notin> set a \<Longrightarrow> split_on c a = [a]"
  by (induction a) auto

lemma split_on_field: "c \<notin> set a \<Longrightarrow> split_on c (a @ c # rest) = a # split_on c rest"
  by (induction a) (auto split: list.splits)

lemma split_on_three:
  assumes "c \<notin> set a" "c \<notin> set b" "c \<notin> set d"
  shows "split_on c (a @ c # b @ c # d) = [a, b, d]"
  using assms by (simp add: split_on_field split_on_no_sep)

lemma is_digit_not_special:
  assumes "is_digit c"
  shows "c \<noteq> CHR ''.''" "c \<noteq> CHR ''-''" "c \<noteq> CHR ''+''" "c \<noteq> CHR ''_''" "\<not> is_space c"
  using assms by (auto simp: is_digit_def is_space_def)

lemma not_digit_dot: "\<not> is_digit CHR ''.''"
  by (simp add: is_digit_def)

lemma strip_two_digits: "is_digit a \<Longrightarrow> is_digit b \<Longrightarrow> strip [a, b] = [a, b]"
  by (simp add: strip_def is_digit_not_special)

lemma py_int_two_digits:
  assumes "is_digit a" "is_digit b"
  shows "py_int [a, b] = Some (int (10 * digit_val a + digit_val b))"
  using assms by (simp add: py_int_def strip_two_digits py_nat_def is_digit_not_special)

lemma digit_val_less: "is_digit c \<Longrightarrow> digit_val c < 10"
  by (auto simp: is_digit_def digit_val_def)

lemma digit_char_val: "is_digit c \<Longrightarrow> digit_char (digit_val c) = c"
  by (simp add: is_digit_def digit_val_def digit_char_def)

lemma digit_char_eqI: "of_char c = 48 + d \<Longrightarrow> digit_char d = c"
  unfolding digit_char_def by (metis char_of_char)

lemma digit_char_numerals:
  "digit_char 0 = CHR ''0''" "digit_char 1 = CHR ''1''" "digit_char (Suc 0) = CHR ''1''"
  "digit_char 2 = CHR ''2''" "digit_char 9 = CHR ''9''"
  by (rule digit_char_eqI, simp)+

lemma dec_digit: "d < 10 \<Longrightarrow> dec d = [digit_char d]"
  by (simp add: dec.simps)

lemma dec_step: "0 < m \<Longrightarrow> d < 10 \<Longrightarrow> dec (10 * m + d) = dec m @ [digit_char d]"
  by (subst dec.simps) simp

lemma dec_two: "x < 10 \<Longrightarrow> y < 10 \<Longrightarrow> dec (10 * x + y) = (if x = 0 then [] else [digit_char x]) @ [digit_char y]"
  by (cases "x = 0") (simp_all add: dec_digit dec_step)

lemma format_two:
  assumes "x < 10" "y < 10"
  shows "format_d 2 (int (10 * x + y)) = [digit_char x, digit_char y]"
proof -
  have n: "nat \<bar>int (10 * x + y)\<bar> = 10 * x + y" by simp
  have s: "\<not> int (10 * x + y) < 0" by simp
  have "format_d 2 (int (10 * x + y))
          = replicate (2 - length (dec (10 * x + y))) CHR ''0'' @ dec (10 * x + y)"
    unfolding format_d_def Let_def n using s by simp
  also have "\<dots> = [digit_char x, digit_char y]"
    using assms by (cases "x = 0") (simp_all add: dec_two dec_digit digit_char_numerals)
  finally show ?thesis .
qed

lemma dec_20: "dec 20 = ''20''" and dec_19: "dec 19 = ''19''"
  by (simp_all add: dec.simps digit_char_numerals)

lemma dec_century:
  assumes "x < 10" "y < 10"
  shows "dec (2000 + (10 * x + y)) = ''20'' @ [digit_char x, digit_char y]"
    and "dec (1900 + (10 * x + y)) = ''19'' @ [digit_char x, digit_char y]"
proof -
  have a1: "2000 + (10 * x + y) = 10 * (200 + x) + y" and a2: "200 + x = 10 * 20 + x"
    and b1: "1900 + (10 * x + y) = 10 * (190 + x) + y" and b2: "190 + x = 10 * 19 + x"
    by simp_all
  have "dec (2000 + (10 * x + y)) = dec (200 + x) @ [digit_char y]"
    unfolding a1 by (rule dec_step) (use assms in simp_all)
  also have "dec (200 + x) = dec 20 @ [digit_char x]"
    unfolding a2 by (rule dec_step) (use assms in simp_all)
  finally show "dec (2000 + (10 * x + y)) = ''20'' @ [digit_char x, digit_char y]"
    by (simp add: dec_20)
  have "dec (1900 + (10 * x + y)) = dec (190 + x) @ [digit_char y]"
    unfolding b1 by (rule dec_step) (use assms in simp_all)
  also have "dec (190 + x) = dec 19 @ [digit_char x]"
    unfolding b2 by (rule dec_step) (use assms in simp_all)
  finally show "dec (1900 + (10 * x + y)) = ''19'' @ [digit_char x, digit_char y]"
    by (simp add: dec_19)
qed

lemma format_year:
  assumes "x < 10" "y < 10"
  shows "format_d 4 (2000 + int (10 * x + y)) = ''20'' @ [digit_char x, digit_char y]"
    and "format_d 4 (1900 + int (10 * x + y)) = ''19'' @ [digit_char x, digit_char y]"
proof -
  have a: "nat \<bar>2000 + int (10 * x + y)\<bar> = 2000 + (10 * x + y)"
    and b: "nat \<bar>1900 + int (10 * x + y)\<bar> = 1900 + (10 * x + y)"
    and s: "\<not> 2000 + int (10 * x + y) < 0" "\<not> 1900 + int (10 * x + y) < 0"
    by simp_all
  show "format_d 4 (2000 + int (10 * x + y)) = ''20'' @ [digit_char x, digit_char y]"
    unfolding format_d_def Let_def a dec_century(1) [OF assms] using s by simp
  show "format_d 4 (1900 + int (10 * x + y)) = ''19'' @ [digit_char x, digit_char y]"
    unfolding format_d_def Let_def b dec_century(2) [OF assms] using s by simp
qed

lemma convert_edf_date_time_digits:
  assumes "is_digit d1" "is_digit d2" "is_digit m1" "is_digit m2" "is_digit y1" "is_digit y2"
    and "is_digit h1" "is_digit h2" "is_digit n1" "is_digit n2"
    and "CHR ''.'' \<notin> set ss"
  shows "convert_edf_date_time [d1, d2, CHR ''.'', m1, m2, CHR ''.'', y1, y2]
             ([h1, h2, CHR ''.'', n1, n2, CHR ''.''] @ ss)
         = Some ((if 10 * digit_val y1 + digit_val y2 < 50 then ''20'' else ''19'')
                 @ [y1, y2, m1, m2, d1, d2] @ ''_'' @ [h1, h2, n1, n2])"
proof -
  have "CHR ''.'' \<notin> set [d1, d2]" "CHR ''.'' \<notin> set [m1, m2]" "CHR ''.'' \<notin> set [y1, y2]"
    using assms not_digit_dot by auto
  from split_on_three [OF this]
  have d: "split_on CHR ''.'' [d1, d2, CHR ''.'', m1, m2, CHR ''.'', y1, y2] = [[d1, d2], [m1, m2], [y1, y2]]"
    by simp
  have "CHR ''.'' \<notin> set [h1, h2]" "CHR ''.'' \<notin> set [n1, n2]"
    using assms not_digit_dot by auto
  from split_on_three [OF this assms(11)]
  have t: "split_on CHR ''.'' ([h1, h2, CHR ''.'', n1, n2, CHR ''.''] @ ss) = [[h1, h2], [n1, n2], ss]"
    by simp
  have lt: "int (10 * digit_val y1 + digit_val y2) < 50 \<longleftrightarrow> 10 * digit_val y1 + digit_val y2 < 50"
    by linarith
  show ?thesis
    unfolding convert_edf_date_time_def d t
    using assms
    by (simp add: py_int_two_digits format_two format_year digit_val_less digit_char_val Let_def lt
             del: of_nat_add of_nat_mult)
qed

text \<open>
  Claim C8. When the start date is \<open>DD.MM.YY\<close> and the start time \<open>HH.MM.SS\<close> (two
  decimal digits per field; the seconds are not read), the derived name is the patient id,
  an underscore, the eight digits \<open>YYYYMMDD\<close> with century 20 for a year below 50 and 19
  otherwise, an underscore, the four digits \<open>HHMM\<close>, and \<open>.edf\<close>.
\<close>

theorem canonical_filename:
  assumes "is_digit d1" "is_digit d2" "is_digit m1" "is_digit m2" "is_digit y1" "is_digit y2"
    and "is_digit h1" "is_digit h2" "is_digit n1" "is_digit n2"
    and "CHR ''.'' \<notin> set ss"
    and "start_date md = [d1, d2, CHR ''.'', m1, m2, CHR ''.'', y1, y2]"
    and "start_time md = [h1, h2, CHR ''.'', n1, n2, CHR ''.''] @ ss"
    and "resolve_patient_id md base = Some pid"
  shows "generate_correct_filename (Some md) base
         = Some (pid @ ''_'' @ (if 10 * digit_val y1 + digit_val y2 < 50 then ''20'' else ''19'')
                 @ [y1, y2, m1, m2, d1, d2] @ ''_'' @ [h1, h2, n1, n2] @ ''.edf'')"
  using convert_edf_date_time_digits [OF assms(1-11)] assms(12-14)
  by (simp add: generate_correct_filename_def)

lemma ex_digits: "is_digit CHR ''0''" "is_digit CHR ''1''" "is_digit CHR ''2''" "is_digit CHR ''3''"
  "is_digit CHR ''5''" "is_digit CHR ''7''" "is_digit CHR ''9''"
  by (simp_all add: is_digit_def)

text \<open>
  The scenario of the claim: date \<open>01.07.13\<close>, time \<open>23.59.00\<close>, patient id
  \<open>5774131\<close>.
\<close>

theorem canonical_filename_witness:
  "generate_correct_filename
     (Some \<lparr>version = ''0'', patient_id = ''5774131'', recording_id = '''',
            start_date = ''01.07.13'', start_time = ''23.59.00'', header_bytes = ''512'',
            reserved = '''', records = ''10'', duration = ''1'', nsignals = ''1''\<rparr>) ''recording.edf''
   = Some ''5774131_20130701_2359.edf''"
proof -
  let ?md = "\<lparr>version = ''0'', patient_id = ''5774131'', recording_id = '''',
            start_date = ''01.07.13'', start_time = ''23.59.00'', header_bytes = ''512'',
            reserved = '''', records = ''10'', duration = ''1'', nsignals = ''1''\<rparr>"
  have p: "resolve_patient_id ?md ''recording.edf'' = Some ''5774131''"
    by (simp add: resolve_patient_id_def strip_def is_space_def)
  have y: "10 * digit_val CHR ''1'' + digit_val CHR ''3'' < 50"
    by (simp add: digit_val_def)
  show ?thesis
    using canonical_filename [of "CHR ''0''" "CHR ''1''" "CHR ''0''" "CHR ''7''" "CHR ''1''" "CHR ''3''"
        "CHR ''2''" "CHR ''3''" "CHR ''5''" "CHR ''9''" "''00''" ?md "''recording.edf''" "''5774131''"]
      p y
    by (simp add: ex_digits)
qed

lemma fallback_patient_id:
  "resolve_patient_id
     \<lparr>version = ''0'', patient_id = '''', recording_id = '''',
      start_date = ''01.07.13'', start_time = ''23.59.00'', header_bytes = ''512'',
      reserved = '''', records = ''10'', duration = ''1'', nsignals = ''1''\<rparr> ''5774131_somejunk.edf''
   = Some ''5774131''"
  by (simp add: resolve_patient_id_def strip_def match_digits_underscore_def is_digit_def)

subsection \<open>Rows with a short timestamp\<close>

lemma parse_time_short:
  "length (split_on CHR '':'' s) < 3 \<Longrightarrow> parse_time_to_seconds pyfloat s = 0"
  by (simp add: parse_time_to_seconds_def Let_def)

lemma load_rows_member:
  assumes "\<forall>row\<in>set df. 4 \<le> length row"
    and "k < length df"
    and "CHR '':'' \<in> set (strip (df ! k ! 2))"
    and "valid_event (strip (df ! k ! 3))"
  shows "\<exists>evs. load_rows pyfloat reference_time i df = Inr evs
           \<and> make_event pyfloat reference_time (i + k) (strip (df ! k ! 2)) (strip (df ! k ! 3)) \<in> set evs"
  using assms
proof (induction df arbitrary: i k)
  case Nil
  then show ?case by simp
next
  case (Cons row rows)
  from Cons.prems(1) have len: "\<not> length row < 4" and rest: "\<forall>r\<in>set rows. 4 \<le> length r"
    by auto
  show ?case
  proof (cases k)
    case 0
    have "\<exists>evs. load_rows pyfloat reference_time (Suc i) rows = Inr evs"
    proof (cases rows)
      case Nil
      then show ?thesis by simp
    next
      case (Cons r rs)
      have "\<exists>evs. load_rows pyfloat reference_time j rows = Inr evs" for j
        using rest
      proof (induction rows arbitrary: j)
        case Nil
        then show ?case by simp
      next
        case (Cons a as)
        from Cons.prems have "\<not> length a < 4" "\<forall>r\<in>set as. 4 \<le> length r" by auto
        with Cons.IH [of "Suc j"] show ?case by (auto simp: Let_def)
      qed
      then show ?thesis by blast
    qed
    then obtain evs where "load_rows pyfloat reference_time (Suc i) rows = Inr evs" by blast
    with 0 len Cons.prems(3,4) show ?thesis by (simp add: Let_def)
  next
    case (Suc k')
    with Cons.prems have "k' < length rows" "CHR '':'' \<in> set (strip (rows ! k' ! 2))"
      "valid_event (strip (rows ! k' ! 3))"
      by simp_all
    from Cons.IH [OF rest this, of "Suc i"] obtain evs where
      "load_rows pyfloat reference_time (Suc i) rows = Inr evs"
      "make_event pyfloat reference_time (Suc i + k') (strip (rows ! k' ! 2)) (strip (rows ! k' ! 3)) \<in> set evs"
      by blast
    with Suc len show ?thesis by (simp add: Let_def)
  qed
qed

text \<open>
  In a frame with columns C and D, a row whose time cell holds a colon but splits into
  fewer than three fields, and whose label is valid, is retained: its event has
  \<open>time_seconds = 0\<close>, relative offset \<open>0 - anchor\<close> and the index of its row.
\<close>

lemma short_row_event:
  assumes "\<forall>row\<in>set df. 4 \<le> length row"
    and "k < length df"
    and "CHR '':'' \<in> set (strip (df ! k ! 2))"
    and "length (split_on CHR '':'' (strip (df ! k ! 2))) < 3"
    and "valid_event (strip (df ! k ! 3))"
  shows "\<lparr>time = strip (df ! k ! 2), time_seconds = 0, relative_time = Some (0 - anchor),
          event_type = strip (df ! k ! 3), row_index = k\<rparr>
           \<in> set (load_excel_events pyfloat df (Some anchor))"
proof -
  let ?ev = "\<lparr>time = strip (df ! k ! 2), time_seconds = 0, relative_time = Some (0 - anchor),
          event_type = strip (df ! k ! 3), row_index = k\<rparr>"
  have m: "make_event pyfloat (Some anchor) (0 + k) (strip (df ! k ! 2)) (strip (df ! k ! 3)) = ?ev"
    using parse_time_short [OF assms(4), of pyfloat] by (simp add: make_event_def)
  from load_rows_member [OF assms(1,2,3,5), of pyfloat "Some anchor" 0] m
  show ?thesis
    by (auto simp: load_excel_events_def)
qed

text \<open>
  The frames of the example, with the anchor \<open>00.00.10\<close>: \<open>b.xlsx\<close> holds the row
  \<open>12:34\<close> / \<open>spike\<close>, \<open>a.xlsx\<close> two rows at 40 s and 50 s. No sheet has a leading
  empty row, so the row of index \<open>i\<close> of a frame is row \<open>i + 1\<close> of its sheet. The
  recording has 46 samples at 1 Hz and 46 records of 1 s.
\<close>

lemma short_row_example:
  "load_excel_events two_digit_float [[''1'', ''x'', ''12:34'', ''spike'']] (Some 10)
     = [\<lparr>time = ''12:34'', time_seconds = 0, relative_time = Some (- 10),
         event_type = ''spike'', row_index = 0\<rparr>]"
  "load_excel_events two_digit_float
       [[''1'', ''x'', ''00:00:40'', ''seizure''], [''2'', ''x'', ''00:00:50'', ''blink'']] (Some 10)
     = [\<lparr>time = ''00:00:40'', time_seconds = 40, relative_time = Some 30,
         event_type = ''seizure'', row_index = 0\<rparr>,
        \<lparr>time = ''00:00:50'', time_seconds = 50, relative_time = Some 40,
         event_type = ''blink'', row_index = 1\<rparr>]"
  "parse_edf_time_to_seconds two_digit_float ''00.00.10'' = 10"
proof -
  have st: "strip ''12:34'' = ''12:34''" "strip ''spike'' = ''spike''"
    "strip ''00:00:40'' = ''00:00:40''" "strip ''00:00:50'' = ''00:00:50''"
    "strip ''seizure'' = ''seizure''" "strip ''blink'' = ''blink''"
    by (simp_all add: strip_def is_space_def)
  have dg: "is_digit CHR ''0''" "is_digit CHR ''1''" "is_digit CHR ''4''" "is_digit CHR ''5''"
    by (simp_all add: is_digit_def)
  have tf: "two_digit_float ''00'' = Some 0" "two_digit_float ''10'' = Some 10"
    "two_digit_float ''40'' = Some 40" "two_digit_float ''50'' = Some 50"
    by (simp_all add: two_digit_float_def dg digit_val_def)
  have pa: "parse_time_to_seconds two_digit_float ''00:00:40'' = 40"
    "parse_time_to_seconds two_digit_float ''00:00:50'' = 50"
    "parse_time_to_seconds two_digit_float ''12:34'' = 0"
    by (simp_all add: parse_time_to_seconds_def tf)
  show "load_excel_events two_digit_float [[''1'', ''x'', ''12:34'', ''spike'']] (Some 10)
     = [\<lparr>time = ''12:34'', time_seconds = 0, relative_time = Some (- 10),
         event_type = ''spike'', row_index = 0\<rparr>]"
    by (simp add: load_excel_events_def st valid_event_def make_event_def pa Let_def)
  show "load_excel_events two_digit_float
       [[''1'', ''x'', ''00:00:40'', ''seizure''], [''2'', ''x'', ''00:00:50'', ''blink'']] (Some 10)
     = [\<lparr>time = ''00:00:40'', time_seconds = 40, relative_time = Some 30,
         event_type = ''seizure'', row_index = 0\<rparr>,
        \<lparr>time = ''00:00:50'', time_seconds = 50, relative_time = Some 40,
         event_type = ''blink'', row_index = 1\<rparr>]"
    by (simp add: load_excel_events_def st valid_event_def make_event_def pa Let_def)
  show "parse_edf_time_to_seconds two_digit_float ''00.00.10'' = 10"
    by (simp add: parse_edf_time_to_seconds_def tf)
qed

lemma recording_46:
  "mne_times_last \<lparr>sfreq = 1, data = [replicate 46 1]\<rparr> = 45"
  "reconcile fl64 mne_times_last 46 \<lparr>sfreq = 1, data = [replicate 46 1]\<rparr>
     = \<lparr>action = NoAction, target_samples = Some 46,
        repaired = \<lparr>sfreq = 1, data = [replicate 46 1]\<rparr>, zero_padding_start = None\<rparr>"
proof -
  let ?r = "\<lparr>sfreq = 1, data = [replicate 46 (1::real)]\<rparr>"
  show t: "mne_times_last ?r = 45"
    by (simp add: mne_times_last_def shape1_def fl64_integers)
  have c: "\<bar>fl64 (mne_times_last ?r - 46)\<bar> > fl64 (1 / 100)"
    unfolding t by (simp add: fl64_eval)
  have p: "py_int_of_real (fl64 (46 * sfreq ?r)) = int (shape1 (data ?r))"
    by (simp add: py_int_of_real_def shape1_def fl64_integers)
  from reconcile_same [where fl = fl64 and times_last = mne_times_last, OF c p]
  show "reconcile fl64 mne_times_last 46 ?r
     = \<lparr>action = NoAction, target_samples = Some 46, repaired = ?r, zero_padding_start = None\<rparr>"
    by (simp add: shape1_def)
qed

text \<open>
  When \<open>b.xlsx\<close> is the only spreadsheet, the status of its short row is written to the
  sheet row of that row.
\<close>

lemma short_row_alone_is_written_back:
  "write_back
     (status_updates (convert_edf_to_edfplus two_digit_float fl64 mne_times_last
        \<lparr>excel_files = [(''b.xlsx'', [[''1'', ''x'', ''12:34'', ''spike'']])],
         container = Some (46, 1, \<lparr>sfreq = 1, data = [replicate 46 1]\<rparr>),
         metadata = Some \<lparr>version = ''0'', patient_id = ''5774131'', recording_id = [],
               start_date = ''01.07.13'', start_time = ''00.00.10'', header_bytes = ''512'',
               reserved = [], records = ''46'', duration = ''1'', nsignals = ''1''\<rparr>,
         file_basename = ''5774131_20130701_0000.edf'', file_stem = ''5774131_20130701_0000'',
         output_file = Some ''out.edf''\<rparr>))
     (\<lambda>f. Map.empty) ''b.xlsx'' 1 = Some EXCLUDED_OUT_OF_RANGE"
  unfolding convert_edf_to_edfplus_def
  by (simp add: get_reference_time_from_edf_metadata_def short_row_example Let_def
      fl64_integers recording_46 raw_times_last_def shape1_def
      map_events_def index_of_def align_events_def event_key_def initial_loop_state_def
      process_event_def event_relative_time_def tolerance_def
      write_back_def update_excel_event_status_def)

text \<open>
  Claim C10 fails on the code. The row \<open>12:34\<close> / \<open>spike\<close> of \<open>b.xlsx\<close> is retained
  with \<open>time_seconds = 0\<close> and offset -10, and it is classified (out of range). With
  \<open>a.xlsx\<close> contributing rows at offsets 30 and 40, the sort puts the short row first,
  and the mapping from event position to file, built before the sort, sends its status to
  \<open>a.xlsx\<close>, where the next status overwrites it. After the write-back the sheet row of
  the short row (row 1 of \<open>b.xlsx\<close>) holds no status, and row 2 of \<open>b.xlsx\<close>, which
  holds no event row, holds the status of a row of \<open>a.xlsx\<close>.
\<close>

theorem short_timestamp_status_is_misdirected:
  "load_excel_events two_digit_float [[''1'', ''x'', ''12:34'', ''spike'']] (Some 10)
     = [\<lparr>time = ''12:34'', time_seconds = 0, relative_time = Some (- 10),
         event_type = ''spike'', row_index = 0\<rparr>]
   \<and> status_updates (convert_edf_to_edfplus two_digit_float fl64 mne_times_last
        \<lparr>excel_files = [(''a.xlsx'', [[''1'', ''x'', ''00:00:40'', ''seizure''],
                                       [''2'', ''x'', ''00:00:50'', ''blink'']]),
                        (''b.xlsx'', [[''1'', ''x'', ''12:34'', ''spike'']])],
         container = Some (46, 1, \<lparr>sfreq = 1, data = [replicate 46 1]\<rparr>),
         metadata = Some \<lparr>version = ''0'', patient_id = ''5774131'', recording_id = [],
               start_date = ''01.07.13'', start_time = ''00.00.10'', header_bytes = ''512'',
               reserved = [], records = ''46'', duration = ''1'', nsignals = ''1''\<rparr>,
         file_basename = ''5774131_20130701_0000.edf'', file_stem = ''5774131_20130701_0000'',
         output_file = Some ''out.edf''\<rparr>)
       = [(''a.xlsx'', [(0, EXCLUDED_OUT_OF_RANGE), (0, INCLUDED)]), (''b.xlsx'', [(1, INCLUDED)])]
   \<and> write_back [(''a.xlsx'', [(0, EXCLUDED_OUT_OF_RANGE), (0, INCLUDED)]), (''b.xlsx'', [(1, INCLUDED)])]
        (\<lambda>f. Map.empty) ''b.xlsx'' 1 = None
   \<and> write_back [(''a.xlsx'', [(0, EXCLUDED_OUT_OF_RANGE), (0, INCLUDED)]), (''b.xlsx'', [(1, INCLUDED)])]
        (\<lambda>f. Map.empty) ''b.xlsx'' 2 = Some INCLUDED
   \<and> write_back [(''a.xlsx'', [(0, EXCLUDED_OUT_OF_RANGE), (0, INCLUDED)]), (''b.xlsx'', [(1, INCLUDED)])]
        (\<lambda>f. Map.empty) ''a.xlsx'' 1 = Some INCLUDED
   \<and> write_back [(''a.xlsx'', [(0, EXCLUDED_OUT_OF_RANGE), (0, INCLUDED)]), (''b.xlsx'', [(1, INCLUDED)])]
        (\<lambda>f. Map.empty) ''a.xlsx'' 2 = None"
  unfolding convert_edf_to_edfplus_def
  by (simp add: get_reference_time_from_edf_metadata_def short_row_example Let_def
      fl64_integers recording_46 raw_times_last_def shape1_def
      map_events_def index_of_def align_events_def event_key_def initial_loop_state_def
      process_event_def event_relative_time_def tolerance_def
      write_back_def update_excel_event_status_def)

subsection \<open>The write-back with several spreadsheet files\<close>

text \<open>
  Claim C2 fails on the code. Two spreadsheet files: \<open>a.xlsx\<close> retains its row 0 (offset
  10 s, beyond the 7 s recording), \<open>b.xlsx\<close> retains its row 1 (offset 5 s). The mapping
  from event position to file is built before the sort and read after it, so the status of
  the row of \<open>b.xlsx\<close> is sent to \<open>a.xlsx\<close> and the other way round.
\<close>

theorem writeback_crosses_files:
  "status_updates (convert_edf_to_edfplus two_digit_float fl64 mne_times_last
     \<lparr>excel_files = [(''a.xlsx'', [[''1'', ''x'', ''00:00:10'', ''seizure'']]),
                     (''b.xlsx'', [[''1'', ''x'', ''note'', ''nan''], [''2'', ''x'', ''00:00:05'', ''blink'']])],
      container = Some (8, 1, \<lparr>sfreq = 1, data = [replicate 8 1]\<rparr>),
      metadata = Some \<lparr>version = ''0'', patient_id = ''5774131'', recording_id = '''',
            start_date = ''01.07.13'', start_time = ''00.00.00'', header_bytes = ''512'',
            reserved = '''', records = ''8'', duration = ''1'', nsignals = ''1''\<rparr>,
      file_basename = ''5774131_20130701_0000.edf'', file_stem = ''5774131_20130701_0000'',
      output_file = Some ''out.edf''\<rparr>)
   = [(''a.xlsx'', [(1, INCLUDED)]), (''b.xlsx'', [(0, EXCLUDED_OUT_OF_RANGE)])]
   \<and> map row_index (load_excel_events two_digit_float [[''1'', ''x'', ''00:00:10'', ''seizure'']] (Some 0)) = [0]
   \<and> map row_index (load_excel_events two_digit_float
        [[''1'', ''x'', ''note'', ''nan''], [''2'', ''x'', ''00:00:05'', ''blink'']] (Some 0)) = [1]"
proof -
  have st: "strip ''00:00:10'' = ''00:00:10''" "strip ''00:00:05'' = ''00:00:05''"
    "strip ''seizure'' = ''seizure''" "strip ''blink'' = ''blink''" "strip ''note'' = ''note''"
    "strip ''nan'' = ''nan''"
    by (simp_all add: strip_def is_space_def)
  have dg: "is_digit CHR ''0''" "is_digit CHR ''1''" "is_digit CHR ''5''"
    by (simp_all add: is_digit_def)
  have tf: "two_digit_float ''00'' = Some 0" "two_digit_float ''10'' = Some 10"
    "two_digit_float ''05'' = Some 5"
    by (simp_all add: two_digit_float_def dg digit_val_def)
  have pa: "parse_time_to_seconds two_digit_float ''00:00:10'' = 10"
    "parse_time_to_seconds two_digit_float ''00:00:05'' = 5"
    by (simp_all add: parse_time_to_seconds_def tf)
  have rf: "parse_edf_time_to_seconds two_digit_float ''00.00.00'' = 0"
    by (simp add: parse_edf_time_to_seconds_def tf)
  have la: "load_excel_events two_digit_float [[''1'', ''x'', ''00:00:10'', ''seizure'']] (Some 0)
      = [\<lparr>time = ''00:00:10'', time_seconds = 10, relative_time = Some 10,
          event_type = ''seizure'', row_index = 0\<rparr>]"
    by (simp add: load_excel_events_def st valid_event_def make_event_def pa Let_def)
  have lb: "load_excel_events two_digit_float
        [[''1'', ''x'', ''note'', ''nan''], [''2'', ''x'', ''00:00:05'', ''blink'']] (Some 0)
      = [\<lparr>time = ''00:00:05'', time_seconds = 5, relative_time = Some 5,
          event_type = ''blink'', row_index = 1\<rparr>]"
    by (simp add: load_excel_events_def st valid_event_def make_event_def pa Let_def)
  show ?thesis
    unfolding convert_edf_to_edfplus_def
    by (simp add: get_reference_time_from_edf_metadata_def rf la lb Let_def
        fl64_integers eight_second_recording raw_times_last_def shape1_def
        map_events_def index_of_def align_events_def event_key_def initial_loop_state_def
        process_event_def event_relative_time_def tolerance_def)
qed

end
